theory Spec2Isabelle
  imports Main "HOL-Library.AList" "HOL-Library.Sublist"
begin

section \<open>The free5GC AMF operator charm\<close>

text \<open>
  A shallow embedding of \<^verbatim>\<open>src/charm.py\<close>. The charm is a set of event handlers that
  talk to three collaborators: the workload container (Pebble), the cluster API
  (lightkube \<^verbatim>\<open>Client\<close>) and the Juju model (configuration, unit status, event deferral).
  Every handler is a function from a \<open>world\<close> to an outcome and the world after it; every
  collaborator call is appended to the trace \<open>calls\<close> of the world, in program order.
  Logging has no effect on any collaborator and is left out.
\<close>

subsection \<open>Module constants\<close>

definition BASE_CONFIG_PATH :: string where
  "BASE_CONFIG_PATH = ''/free5gc/config''"

definition CONFIG_FILE_NAME :: string where
  "CONFIG_FILE_NAME = ''amfcfg.yaml''"

definition NETWORK_ATTACHMENT_DEFINITION_NAME :: string where
  "NETWORK_ATTACHMENT_DEFINITION_NAME = ''n2network-amf''"

text \<open>The f-string \<^verbatim>\<open>f"{BASE_CONFIG_PATH}/{CONFIG_FILE_NAME}"\<close>, used by three methods.\<close>

definition config_file_path :: string where
  "config_file_path = BASE_CONFIG_PATH @ ''/'' @ CONFIG_FILE_NAME"

subsection \<open>Python values\<close>

text \<open>
  Exceptions are values. \<open>ApiError r\<close> is lightkube's \<^verbatim>\<open>ApiError\<close> with
  \<^verbatim>\<open>status.reason == r\<close>; \<open>KeyError k\<close> is a missing configuration key; \<open>TypeError\<close> is
  what Python raises for \<^verbatim>\<open>key in None\<close> and \<^verbatim>\<open>None[key] = value\<close>.
\<close>

datatype exn = ApiError string | KeyError string | TypeError

text \<open>
  \<^verbatim>\<open>str.split(sep)\<close> for a one-character separator: the pieces between the occurrences of
  the separator, one more piece than there are occurrences.
\<close>

fun split_str :: "char \<Rightarrow> string \<Rightarrow> string list" where
  "split_str sep [] = [[]]"
| "split_str sep (c # cs) =
     (if c = sep then [] # split_str sep cs
      else (case split_str sep cs of [] \<Rightarrow> [[c]] | p # ps \<Rightarrow> (c # p) # ps))"

text \<open>
  The values given to \<^verbatim>\<open>json.dumps\<close>: dictionaries (in insertion order), lists, strings
  and booleans.
\<close>

datatype json = JStr string | JBool bool | JArr "json list" | JObj "(string \<times> json) list"

definition hex_digit :: "nat \<Rightarrow> char" where
  "hex_digit n = ''0123456789abcdef'' ! n"

text \<open>
  String escaping of \<^verbatim>\<open>json.dumps\<close> with its default \<^verbatim>\<open>ensure_ascii=True\<close>: backslash,
  double quote and the five named control characters get their two-character escape,
  every other character outside space .. tilde becomes \<^verbatim>\<open>\u00xx\<close> (a \<open>char\<close> is one of
  the first 256 code points).
\<close>

definition escape_char :: "char \<Rightarrow> string" where
  "escape_char c =
     (if c = CHR 0x5C then [CHR 0x5C, CHR 0x5C]
      else if c = CHR 0x22 then [CHR 0x5C, CHR 0x22]
      else if c = CHR 0x08 then [CHR 0x5C, CHR ''b'']
      else if c = CHR 0x0C then [CHR 0x5C, CHR ''f'']
      else if c = CHR 0x0A then [CHR 0x5C, CHR ''n'']
      else if c = CHR 0x0D then [CHR 0x5C, CHR ''r'']
      else if c = CHR 0x09 then [CHR 0x5C, CHR ''t'']
      else if 0x20 \<le> (of_char c :: nat) \<and> (of_char c :: nat) \<le> 0x7E then [c]
      else [CHR 0x5C, CHR ''u'', CHR ''0'', CHR ''0'',
            hex_digit ((of_char c :: nat) div 16), hex_digit ((of_char c :: nat) mod 16)])"

definition json_quote :: "string \<Rightarrow> string" where
  "json_quote s = [CHR 0x22] @ concat (map escape_char s) @ [CHR 0x22]"

fun join_str :: "string \<Rightarrow> string list \<Rightarrow> string" where
  "join_str sep [] = []"
| "join_str sep [x] = x"
| "join_str sep (x # y # ys) = x @ sep @ join_str sep (y # ys)"

text \<open>
  \<^verbatim>\<open>json.dumps\<close> with its default separators \<^verbatim>\<open>", "\<close> and \<^verbatim>\<open>": "\<close>.
\<close>

fun json_dumps :: "json \<Rightarrow> string" where
  "json_dumps (JStr s) = json_quote s"
| "json_dumps (JBool b) = (if b then ''true'' else ''false'')"
| "json_dumps (JArr xs) = ''['' @ join_str '', '' (map json_dumps xs) @ '']''"
| "json_dumps (JObj kvs) =
     ''{'' @ join_str '', '' (map (\<lambda>kv. json_quote (fst kv) @ '': '' @ json_dumps (snd kv)) kvs)
       @ ''}''"

subsection \<open>Cluster resources and Pebble layers\<close>

text \<open>
  \<^verbatim>\<open>NetworkAttachmentDefinition(metadata=ObjectMeta(name=...), spec={...})\<close>: the name and the
  \<^verbatim>\<open>spec\<close> dictionary.
\<close>

record network_attachment_definition =
  metadata_name :: string
  spec :: "(string \<times> string) list"

text \<open>
  Of a \<^verbatim>\<open>StatefulSet\<close> the charm reads and writes
  \<^verbatim>\<open>spec.template.metadata.annotations\<close> only; lightkube types it
  \<^verbatim>\<open>Optional[Dict[str, str]]\<close>, \<open>None\<close> being Python's \<^verbatim>\<open>None\<close>. The dictionary keeps its
  insertion order.
\<close>

record statefulset =
  annotations :: "(string \<times> string) list option"

record service =
  override :: string
  startup :: string
  command :: string
  environment :: "(string \<times> string) list"

record layer =
  summary :: string
  description :: string
  services :: "(string \<times> service) list"

datatype status = Unknown | WaitingStatus string | ActiveStatus

subsection \<open>The world\<close>

text \<open>
  The verbs of the cluster API that the charm uses, and the calls it makes on its
  collaborators, with their arguments. \<open>Patch\<close> is always a merge patch
  (\<^verbatim>\<open>patch_type=PatchType.MERGE\<close>); \<open>AddLayer\<close> carries the label, the layer and
  \<^verbatim>\<open>combine\<close>.
\<close>

datatype verb = GetNAD | CreateNAD | DeleteNAD | GetSTS | PatchSTS

datatype call =
    CanConnect
  | Push string string
  | Exists string
  | AddLayer string layer bool
  | Replan
  | NadGet string string
  | NadCreate network_attachment_definition string
  | NadDelete string string
  | StsGet string string
  | StsPatch string statefulset string

record world =
  config :: "(string \<times> string) list"
  model_name :: string
  app_name :: string
  template :: "string \<Rightarrow> string"
  can_connect :: bool
  files :: "string \<rightharpoonup> string"
  nads :: "string \<times> string \<rightharpoonup> network_attachment_definition"
  statefulsets :: "string \<times> string \<rightharpoonup> statefulset"
  fault :: "verb \<Rightarrow> string option"
  unit_status :: status
  deferred :: bool
  calls :: "call list"

text \<open>
  \<^item> \<open>config\<close> is \<^verbatim>\<open>self.model.config\<close>, \<open>model_name\<close> is \<^verbatim>\<open>self.model.name\<close> (the
    namespace), \<open>app_name\<close> is \<^verbatim>\<open>self.app.name\<close>.
  \<^item> \<open>template\<close> is the rendering of \<^verbatim>\<open>src/templates/amfcfg.yaml.j2\<close> as a function of the
    value bound to \<^verbatim>\<open>ngap_ip_address\<close>, after the contract
    \<^verbatim>\<open>render(ipAddress: string) -> bytes\<close>; the text of the template is a parameter of the
    model.
  \<^item> \<open>files\<close> is the workload container's file system.
  \<^item> \<open>nads\<close> and \<open>statefulsets\<close> are the cluster's objects, by namespace and name.
  \<^item> \<open>fault v = Some r\<close> says that the API server refuses verb \<open>v\<close> with reason \<open>r\<close>
    (\<^verbatim>\<open>Forbidden\<close>, \<^verbatim>\<open>InternalError\<close>, ...), whatever the objects are.
  \<^item> \<open>deferred\<close> is set by \<^verbatim>\<open>event.defer()\<close>.
\<close>

definition record_call :: "call \<Rightarrow> world \<Rightarrow> world" where
  "record_call c w = w\<lparr>calls := calls w @ [c]\<rparr>"

subsection \<open>Collaborators\<close>

text \<open>
  Modelled from the spec: the workload container of the \<^verbatim>\<open>ops\<close> library, which the charm
  imports. Its methods \<^verbatim>\<open>can_connect\<close>, \<^verbatim>\<open>push\<close>, \<^verbatim>\<open>exists\<close>, \<^verbatim>\<open>add_layer\<close> and
  \<^verbatim>\<open>replan\<close> follow the contracts \<^verbatim>\<open>isReachable() -> bool\<close>, \<^verbatim>\<open>write(path, bytes) -> ()\<close>,
  \<^verbatim>\<open>exists(path) -> bool\<close>, \<^verbatim>\<open>declare(...) -> ()\<close> and \<^verbatim>\<open>applyAndRestart() -> ()\<close>. What
  the supervisor does with a layer is outside the charm; the calls are recorded.
\<close>

definition container_can_connect :: "world \<Rightarrow> bool \<times> world" where
  "container_can_connect w = (can_connect w, record_call CanConnect w)"

definition container_push :: "string \<Rightarrow> string \<Rightarrow> world \<Rightarrow> world" where
  "container_push path source w =
     record_call (Push path source) (w\<lparr>files := (files w)(path \<mapsto> source)\<rparr>)"

definition container_exists :: "string \<Rightarrow> world \<Rightarrow> bool \<times> world" where
  "container_exists path w = (files w path \<noteq> None, record_call (Exists path) w)"

definition container_add_layer :: "string \<Rightarrow> layer \<Rightarrow> bool \<Rightarrow> world \<Rightarrow> world" where
  "container_add_layer label l combine w = record_call (AddLayer label l combine) w"

definition container_replan :: "world \<Rightarrow> world" where
  "container_replan w = record_call Replan w"

text \<open>
  Modelled from the spec: the \<^verbatim>\<open>Client\<close> of the \<^verbatim>\<open>lightkube\<close> library, which the charm
  imports. Its methods follow the contracts
  \<^verbatim>\<open>get(kind, name, namespace) -> object | NotFoundError\<close>,
  \<^verbatim>\<open>create(object, namespace) -> object | AlreadyExistsError\<close>,
  \<^verbatim>\<open>patch(kind, name, namespace, mergeObject) -> object\<close> and
  \<^verbatim>\<open>delete(kind, name, namespace) -> () | NotFoundError\<close>: a refused call raises the
  refusal and changes nothing, a call on a missing object raises \<^verbatim>\<open>NotFound\<close>, a create
  of an object that exists raises \<^verbatim>\<open>AlreadyExists\<close>.
\<close>

definition client_get_nad ::
  "string \<Rightarrow> string \<Rightarrow> world \<Rightarrow> (exn + network_attachment_definition) \<times> world" where
  "client_get_nad name namespace w =
     (let w' = record_call (NadGet name namespace) w in
      case fault w GetNAD of
        Some r \<Rightarrow> (Inl (ApiError r), w')
      | None \<Rightarrow>
          (case nads w (namespace, name) of
             None \<Rightarrow> (Inl (ApiError ''NotFound''), w')
           | Some n \<Rightarrow> (Inr n, w')))"

definition client_create_nad ::
  "network_attachment_definition \<Rightarrow> string \<Rightarrow> world \<Rightarrow> (exn + unit) \<times> world" where
  "client_create_nad obj namespace w =
     (let w' = record_call (NadCreate obj namespace) w in
      case fault w CreateNAD of
        Some r \<Rightarrow> (Inl (ApiError r), w')
      | None \<Rightarrow>
          (case nads w (namespace, metadata_name obj) of
             Some n \<Rightarrow> (Inl (ApiError ''AlreadyExists''), w')
           | None \<Rightarrow>
               (Inr (), w'\<lparr>nads := (nads w)((namespace, metadata_name obj) \<mapsto> obj)\<rparr>)))"

definition client_delete_nad :: "string \<Rightarrow> string \<Rightarrow> world \<Rightarrow> (exn + unit) \<times> world" where
  "client_delete_nad name namespace w =
     (let w' = record_call (NadDelete name namespace) w in
      case fault w DeleteNAD of
        Some r \<Rightarrow> (Inl (ApiError r), w')
      | None \<Rightarrow>
          (case nads w (namespace, name) of
             None \<Rightarrow> (Inl (ApiError ''NotFound''), w')
           | Some n \<Rightarrow> (Inr (), w'\<lparr>nads := (nads w)((namespace, name) := None)\<rparr>)))"

definition client_get_sts ::
  "string \<Rightarrow> string \<Rightarrow> world \<Rightarrow> (exn + statefulset) \<times> world" where
  "client_get_sts name namespace w =
     (let w' = record_call (StsGet name namespace) w in
      case fault w GetSTS of
        Some r \<Rightarrow> (Inl (ApiError r), w')
      | None \<Rightarrow>
          (case statefulsets w (namespace, name) of
             None \<Rightarrow> (Inl (ApiError ''NotFound''), w')
           | Some s \<Rightarrow> (Inr s, w')))"

text \<open>
  Modelled from the spec: a merge patch "merges a given fragment into an existing resource
  without replacing the whole object". For the annotations: the keys of the patch are set
  in the stored dictionary, the other keys stay; a patch without annotations leaves them
  as they are.
\<close>

definition merge_annotations ::
  "(string \<times> string) list option \<Rightarrow> (string \<times> string) list option
    \<Rightarrow> (string \<times> string) list option" where
  "merge_annotations old patch =
     (case patch of
        None \<Rightarrow> old
      | Some p \<Rightarrow> (case old of None \<Rightarrow> Some p | Some a \<Rightarrow> Some (AList.merge a p)))"

definition client_patch_sts ::
  "string \<Rightarrow> statefulset \<Rightarrow> string \<Rightarrow> world \<Rightarrow> (exn + unit) \<times> world" where
  "client_patch_sts name obj namespace w =
     (let w' = record_call (StsPatch name obj namespace) w in
      case fault w PatchSTS of
        Some r \<Rightarrow> (Inl (ApiError r), w')
      | None \<Rightarrow>
          (case statefulsets w (namespace, name) of
             None \<Rightarrow> (Inl (ApiError ''NotFound''), w')
           | Some s \<Rightarrow>
               (Inr (), w'\<lparr>statefulsets := (statefulsets w)((namespace, name) \<mapsto>
                   s\<lparr>annotations := merge_annotations (annotations s) (annotations obj)\<rparr>)\<rparr>)))"

subsection \<open>The charm\<close>

text \<open>\<^verbatim>\<open>self.model.config[key]\<close>.\<close>

definition config_get :: "string \<Rightarrow> world \<Rightarrow> exn + string" where
  "config_get key w = (case map_of (config w) key of None \<Rightarrow> Inl (KeyError key) | Some v \<Rightarrow> Inr v)"

definition config_ngap_cidr :: "world \<Rightarrow> exn + string" where
  "config_ngap_cidr w = config_get ''ngap-ip'' w"

definition config_ngap_gateway :: "world \<Rightarrow> exn + string" where
  "config_ngap_gateway w = config_get ''ngap-gateway'' w"

definition config_interface :: "world \<Rightarrow> exn + string" where
  "config_interface w = config_get ''interface'' w"

text \<open>
  \<^verbatim>\<open>_write_config_file\<close>: render the template with the address part of the CIDR and push
  it. \<^verbatim>\<open>split("/")[0]\<close> is the head of a list that is never empty.
\<close>

definition write_config_file :: "world \<Rightarrow> (exn + unit) \<times> world" where
  "write_config_file w =
     (case config_ngap_cidr w of
        Inl e \<Rightarrow> (Inl e, w)
      | Inr cidr \<Rightarrow>
          (let content = template w (hd (split_str CHR ''/'' cidr)) in
           (Inr (), container_push config_file_path content w)))"

text \<open>
  \<^verbatim>\<open>_network_attachment_definition_created\<close>: an \<^verbatim>\<open>ApiError\<close> of the get is caught; with
  reason \<^verbatim>\<open>NotFound\<close> the property returns \<^verbatim>\<open>False\<close> inside the handler, with any other
  reason control leaves the \<^verbatim>\<open>try\<close> statement and reaches the final \<^verbatim>\<open>return False\<close>. An
  exception that is not an \<^verbatim>\<open>ApiError\<close> is not caught.
\<close>

definition network_attachment_definition_created :: "world \<Rightarrow> (exn + bool) \<times> world" where
  "network_attachment_definition_created w =
     (case client_get_nad NETWORK_ATTACHMENT_DEFINITION_NAME (model_name w) w of
        (Inr n, w') \<Rightarrow> (Inr True, w')
      | (Inl (ApiError r), w') \<Rightarrow> (if r = ''NotFound'' then (Inr False, w') else (Inr False, w'))
      | (Inl e, w') \<Rightarrow> (Inl e, w'))"

definition multus_key :: string where
  "multus_key = ''k8s.v1.cni.cncf.io/networks''"

text \<open>
  \<^verbatim>\<open>_annotation_added_to_statefulset\<close>: the get is not guarded, and
  \<^verbatim>\<open>key in current_annotation\<close> raises \<^verbatim>\<open>TypeError\<close> when the annotations are \<^verbatim>\<open>None\<close>.
\<close>

definition annotation_added_to_statefulset :: "world \<Rightarrow> (exn + bool) \<times> world" where
  "annotation_added_to_statefulset w =
     (case client_get_sts (app_name w) (model_name w) w of
        (Inl e, w') \<Rightarrow> (Inl e, w')
      | (Inr statefulset, w') \<Rightarrow>
          (case annotations statefulset of
             None \<Rightarrow> (Inl TypeError, w')
           | Some current_annotation \<Rightarrow>
               (Inr (map_of current_annotation multus_key \<noteq> None), w')))"

definition nad_spec :: "string \<Rightarrow> string \<Rightarrow> json" where
  "nad_spec interface gateway =
     JObj [(''cniVersion'', JStr ''0.3.1''),
           (''plugins'', JArr [
              JObj [(''type'', JStr ''macvlan''),
                    (''capabilities'', JObj [(''ips'', JBool True)]),
                    (''master'', JStr interface),
                    (''mode'', JStr ''bridge''),
                    (''ipam'', JObj [(''type'', JStr ''static''),
                                    (''routes'', JArr [JObj [(''dst'', JStr ''0.0.0.0/0''),
                                                            (''gw'', JStr gateway)]])])],
              JObj [(''capabilities'', JObj [(''mac'', JBool True)]),
                    (''type'', JStr ''tuning'')]])]"

text \<open>
  \<^verbatim>\<open>_create_network_attachement_definition\<close>: the dictionary display reads the interface
  before the gateway; the create is not guarded.
\<close>

definition create_network_attachement_definition :: "world \<Rightarrow> (exn + unit) \<times> world" where
  "create_network_attachement_definition w =
     (case config_interface w of
        Inl e \<Rightarrow> (Inl e, w)
      | Inr interface \<Rightarrow>
          (case config_ngap_gateway w of
             Inl e \<Rightarrow> (Inl e, w)
           | Inr gateway \<Rightarrow>
               client_create_nad
                 \<lparr>metadata_name = NETWORK_ATTACHMENT_DEFINITION_NAME,
                  spec = [(''config'', json_dumps (nad_spec interface gateway))]\<rparr>
                 (model_name w) w))"

text \<open>\<^verbatim>\<open>_delete_network_attachement_definition\<close>: the delete is not guarded.\<close>

definition delete_network_attachement_definition :: "world \<Rightarrow> (exn + unit) \<times> world" where
  "delete_network_attachement_definition w =
     client_delete_nad NETWORK_ATTACHMENT_DEFINITION_NAME (model_name w) w"

definition multus_annotation :: "string \<Rightarrow> string \<Rightarrow> json" where
  "multus_annotation cidr gateway =
     JArr [JObj [(''name'', JStr NETWORK_ATTACHMENT_DEFINITION_NAME),
                 (''interface'', JStr ''n2''),
                 (''ips'', JStr cidr),
                 (''gateway'', JStr gateway)]]"

text \<open>
  \<^verbatim>\<open>_add_statefulset_pod_network_annotation\<close>: the list display reads the CIDR before the
  gateway; the statefulset is fetched, the key is set in its annotations (a
  \<^verbatim>\<open>TypeError\<close> when they are \<^verbatim>\<open>None\<close>) and the whole object is sent as a merge patch.
\<close>

definition add_statefulset_pod_network_annotation :: "world \<Rightarrow> (exn + unit) \<times> world" where
  "add_statefulset_pod_network_annotation w =
     (case config_ngap_cidr w of
        Inl e \<Rightarrow> (Inl e, w)
      | Inr cidr \<Rightarrow>
          (case config_ngap_gateway w of
             Inl e \<Rightarrow> (Inl e, w)
           | Inr gateway \<Rightarrow>
               (case client_get_sts (app_name w) (model_name w) w of
                  (Inl e, w') \<Rightarrow> (Inl e, w')
                | (Inr statefulset, w') \<Rightarrow>
                    (case annotations statefulset of
                       None \<Rightarrow> (Inl TypeError, w')
                     | Some current_annotation \<Rightarrow>
                         client_patch_sts (app_name w)
                           (statefulset\<lparr>annotations :=
                              Some (AList.update multus_key
                                      (json_dumps (multus_annotation cidr gateway))
                                      current_annotation)\<rparr>)
                           (model_name w) w'))))"

text \<open>\<^verbatim>\<open>_on_config_changed\<close>.\<close>

definition on_config_changed :: "world \<Rightarrow> (exn + unit) \<times> world" where
  "on_config_changed w =
     (case container_can_connect w of
        (False, w1) \<Rightarrow>
          (Inr (), w1\<lparr>unit_status := WaitingStatus ''Waiting for container to be ready'',
                      deferred := True\<rparr>)
      | (True, w1) \<Rightarrow>
          (case write_config_file w1 of
             (Inl e, w2) \<Rightarrow> (Inl e, w2)
           | (Inr u, w2) \<Rightarrow>
               (case network_attachment_definition_created w2 of
                  (Inl e, w3) \<Rightarrow> (Inl e, w3)
                | (Inr created, w3) \<Rightarrow>
                    (case (if \<not> created then create_network_attachement_definition w3
                           else (Inr (), w3)) of
                       (Inl e, w4) \<Rightarrow> (Inl e, w4)
                     | (Inr u, w4) \<Rightarrow>
                         (case annotation_added_to_statefulset w4 of
                            (Inl e, w5) \<Rightarrow> (Inl e, w5)
                          | (Inr added, w5) \<Rightarrow>
                              (if \<not> added then add_statefulset_pod_network_annotation w5
                               else (Inr (), w5)))))))"

text \<open>\<^verbatim>\<open>_on_remove\<close>.\<close>

definition on_remove :: "world \<Rightarrow> (exn + unit) \<times> world" where
  "on_remove w = delete_network_attachement_definition w"

text \<open>\<^verbatim>\<open>_config_file_is_written\<close>.\<close>

definition config_file_is_written :: "world \<Rightarrow> bool \<times> world" where
  "config_file_is_written w =
     (case container_exists config_file_path w of
        (False, w') \<Rightarrow> (False, w')
      | (True, w') \<Rightarrow> (True, w'))"

definition environment_variables :: "(string \<times> string) list" where
  "environment_variables = [(''GIN_MODE'', ''release'')]"

definition pebble_layer :: layer where
  "pebble_layer =
     \<lparr>summary = ''free5gc-amf layer'',
      description = ''pebble config layer for free5gc-amf'',
      services =
        [(''free5gc-amf'',
          \<lparr>override = ''replace'',
           startup = ''enabled'',
           command = ''./amf -c '' @ BASE_CONFIG_PATH @ ''/'' @ CONFIG_FILE_NAME,
           environment = environment_variables\<rparr>)]\<rparr>"

text \<open>\<^verbatim>\<open>_on_free5gc_amf_pebble_ready\<close>.\<close>

definition on_free5gc_amf_pebble_ready :: "world \<Rightarrow> (exn + unit) \<times> world" where
  "on_free5gc_amf_pebble_ready w =
     (case container_can_connect w of
        (False, w1) \<Rightarrow>
          (Inr (), w1\<lparr>unit_status := WaitingStatus ''Waiting for container to be ready'',
                      deferred := True\<rparr>)
      | (True, w1) \<Rightarrow>
          (case config_file_is_written w1 of
             (False, w2) \<Rightarrow>
               (Inr (), w2\<lparr>unit_status := WaitingStatus ''Waiting for config file to be written'',
                           deferred := True\<rparr>)
           | (True, w2) \<Rightarrow>
               (let w3 = container_add_layer ''free5gc-amf'' pebble_layer True w2;
                    w4 = container_replan w3
                in (Inr (), w4\<lparr>unit_status := ActiveStatus\<rparr>))))"

subsection \<open>Traces and scenarios\<close>

text \<open>The calls that a handler added to the trace: those of \<open>w'\<close> after those of \<open>w\<close>.\<close>

definition new_calls :: "world \<Rightarrow> world \<Rightarrow> call list" where
  "new_calls w w' = drop (length (calls w)) (calls w')"

text \<open>The name of the network attachment definition that a call addresses, if it addresses one.\<close>

fun nad_call_name :: "call \<Rightarrow> string option" where
  "nad_call_name (NadGet name namespace) = Some name"
| "nad_call_name (NadCreate obj namespace) = Some (metadata_name obj)"
| "nad_call_name (NadDelete name namespace) = Some name"
| "nad_call_name c = None"

text \<open>
  The configuration of the scenarios of the specification, and a world for it: the
  container is reachable, no network attachment definition exists, the statefulset of the
  application has pod annotations without the Multus key, and the API server refuses
  nothing. \<open>example_template\<close> stands in for the template file.
\<close>

definition scenario_config :: "(string \<times> string) list" where
  "scenario_config =
     [(''ngap-ip'', ''10.0.0.5/24''), (''ngap-gateway'', ''10.0.0.1''), (''interface'', ''eth1'')]"

definition example_template :: "string \<Rightarrow> string" where
  "example_template ip = ''ngapIpList: '' @ ip"

definition scenario_world :: world where
  "scenario_world =
     \<lparr>config = scenario_config,
      model_name = ''core'',
      app_name = ''free5gc-amf'',
      template = example_template,
      can_connect = True,
      files = Map.empty,
      nads = Map.empty,
      statefulsets = [(''core'', ''free5gc-amf'') \<mapsto> \<lparr>annotations = Some [(''app'', ''amf'')]\<rparr>],
      fault = (\<lambda>v. None),
      unit_status = Unknown,
      deferred = False,
      calls = []\<rparr>"

text \<open>The same world, with the API server refusing one verb.\<close>

definition with_fault :: "verb \<Rightarrow> string \<Rightarrow> world \<Rightarrow> world" where
  "with_fault v r w = w\<lparr>fault := (fault w)(v := Some r)\<rparr>"

section \<open>Auxiliary facts\<close>

lemmas collab_defs = record_call_def container_can_connect_def container_push_def
  container_exists_def container_add_layer_def container_replan_def
  client_get_nad_def client_create_nad_def client_delete_nad_def client_get_sts_def
  client_patch_sts_def

lemmas config_defs = config_get_def config_ngap_cidr_def config_ngap_gateway_def
  config_interface_def

lemmas charm_defs = config_defs write_config_file_def network_attachment_definition_created_def
  annotation_added_to_statefulset_def create_network_attachement_definition_def
  delete_network_attachement_definition_def add_statefulset_pod_network_annotation_def
  on_config_changed_def on_remove_def config_file_is_written_def
  on_free5gc_amf_pebble_ready_def

subsection \<open>The steps of a pass, one by one\<close>

lemma write_config_file_Inr:
  assumes "write_config_file w = (Inr u, w')"
  shows "\<exists>cidr. map_of (config w) ''ngap-ip'' = Some cidr \<and>
     w' = w\<lparr>files := (files w)(config_file_path \<mapsto> template w (hd (split_str CHR ''/'' cidr))),
            calls := calls w @ [Push config_file_path (template w (hd (split_str CHR ''/'' cidr)))]\<rparr>"
  using assms
  by (auto simp: write_config_file_def config_defs container_push_def record_call_def Let_def
      split: option.splits)

lemma write_config_file_Inl:
  "write_config_file w = (Inl e, w') \<Longrightarrow> w' = w"
  by (auto simp: write_config_file_def config_defs container_push_def record_call_def Let_def
      split: option.splits)

lemma created_eq:
  "network_attachment_definition_created w =
     (Inr (fault w GetNAD = None \<and>
           nads w (model_name w, NETWORK_ATTACHMENT_DEFINITION_NAME) \<noteq> None),
      w\<lparr>calls := calls w @ [NadGet NETWORK_ATTACHMENT_DEFINITION_NAME (model_name w)]\<rparr>)"
  by (auto simp: network_attachment_definition_created_def client_get_nad_def record_call_def
      Let_def split: option.splits)

lemma create_Inr:
  assumes "create_network_attachement_definition w = (Inr u, w')"
  shows "\<exists>i g. map_of (config w) ''interface'' = Some i \<and>
     map_of (config w) ''ngap-gateway'' = Some g \<and> fault w CreateNAD = None \<and>
     nads w (model_name w, NETWORK_ATTACHMENT_DEFINITION_NAME) = None \<and>
     w' = w\<lparr>nads := (nads w)((model_name w, NETWORK_ATTACHMENT_DEFINITION_NAME) \<mapsto>
                \<lparr>metadata_name = NETWORK_ATTACHMENT_DEFINITION_NAME,
                 spec = [(''config'', json_dumps (nad_spec i g))]\<rparr>),
            calls := calls w @ [NadCreate \<lparr>metadata_name = NETWORK_ATTACHMENT_DEFINITION_NAME,
                 spec = [(''config'', json_dumps (nad_spec i g))]\<rparr> (model_name w)]\<rparr>"
  using assms
  by (auto simp: create_network_attachement_definition_def config_defs client_create_nad_def
      record_call_def Let_def split: option.splits)

lemma create_Inl:
  assumes "create_network_attachement_definition w = (Inl e, w')"
  shows "w' = w \<or> (\<exists>i g.
     w' = w\<lparr>calls := calls w @ [NadCreate \<lparr>metadata_name = NETWORK_ATTACHMENT_DEFINITION_NAME,
                 spec = [(''config'', json_dumps (nad_spec i g))]\<rparr> (model_name w)]\<rparr>)"
  using assms
  by (auto simp: create_network_attachement_definition_def config_defs client_create_nad_def
      record_call_def Let_def split: option.splits)

lemma added_world:
  "annotation_added_to_statefulset w = (r, w') \<Longrightarrow>
     w' = w\<lparr>calls := calls w @ [StsGet (app_name w) (model_name w)]\<rparr>"
  by (auto simp: annotation_added_to_statefulset_def client_get_sts_def record_call_def Let_def
      split: option.splits)

lemma added_Inr:
  assumes "annotation_added_to_statefulset w = (Inr b, w')"
  shows "fault w GetSTS = None \<and>
     (\<exists>s a. statefulsets w (model_name w, app_name w) = Some s \<and> annotations s = Some a \<and>
        b = (map_of a multus_key \<noteq> None))"
  using assms
  by (auto simp: annotation_added_to_statefulset_def client_get_sts_def record_call_def Let_def
      split: option.splits)

lemma add_Inr:
  assumes "add_statefulset_pod_network_annotation w = (Inr u, w')"
  shows "\<exists>cidr g s a. map_of (config w) ''ngap-ip'' = Some cidr \<and>
     map_of (config w) ''ngap-gateway'' = Some g \<and>
     statefulsets w (model_name w, app_name w) = Some s \<and> annotations s = Some a \<and>
     w' = w\<lparr>statefulsets := (statefulsets w)((model_name w, app_name w) \<mapsto>
               s\<lparr>annotations := Some (AList.merge a
                    (AList.update multus_key (json_dumps (multus_annotation cidr g)) a))\<rparr>),
            calls := calls w @ [StsGet (app_name w) (model_name w),
              StsPatch (app_name w)
                (s\<lparr>annotations :=
                     Some (AList.update multus_key (json_dumps (multus_annotation cidr g)) a)\<rparr>)
                (model_name w)]\<rparr>"
  using assms
  by (auto simp: add_statefulset_pod_network_annotation_def config_defs client_get_sts_def
      client_patch_sts_def merge_annotations_def record_call_def Let_def split: option.splits)

lemma add_Inl:
  assumes "add_statefulset_pod_network_annotation w = (Inl e, w')"
  shows "w' = w \<or> w' = w\<lparr>calls := calls w @ [StsGet (app_name w) (model_name w)]\<rparr> \<or>
     (\<exists>obj. w' = w\<lparr>calls := calls w @ [StsGet (app_name w) (model_name w),
                    StsPatch (app_name w) obj (model_name w)]\<rparr>)"
  using assms
  by (auto simp: add_statefulset_pod_network_annotation_def config_defs client_get_sts_def
      client_patch_sts_def merge_annotations_def record_call_def Let_def split: option.splits)

lemma update_fresh: "map_of a k = None \<Longrightarrow> AList.update k v a = a @ [(k, v)]"
  by (induction a) (auto split: if_splits)

subsection \<open>The paths through \<^verbatim>\<open>_on_config_changed\<close>\<close>

text \<open>
  A pass ends in one of six ways: it defers, the write raises, the create raises, the
  annotation check raises, the annotation is found, or the annotation is added (which may
  raise in turn).
\<close>

lemma on_config_changed_cases [consumes 1]:
  assumes "on_config_changed w = (r, w')"
  obtains (not_ready)
    "\<not> can_connect w" "r = Inr ()"
    "w' = w\<lparr>unit_status := WaitingStatus ''Waiting for container to be ready'',
            deferred := True, calls := calls w @ [CanConnect]\<rparr>"
  | (write_failed) e where "can_connect w" "r = Inl e"
      "write_config_file (record_call CanConnect w) = (Inl e, w')"
  | (create_failed) e w2 w3 where "can_connect w" "r = Inl e"
      "write_config_file (record_call CanConnect w) = (Inr (), w2)"
      "network_attachment_definition_created w2 = (Inr False, w3)"
      "create_network_attachement_definition w3 = (Inl e, w')"
  | (check_failed) e w2 w3 w4 created where "can_connect w" "r = Inl e"
      "write_config_file (record_call CanConnect w) = (Inr (), w2)"
      "network_attachment_definition_created w2 = (Inr created, w3)"
      "(if created then (Inr (), w3) else create_network_attachement_definition w3) = (Inr (), w4)"
      "annotation_added_to_statefulset w4 = (Inl e, w')"
  | (present) w2 w3 w4 created where "can_connect w" "r = Inr ()"
      "write_config_file (record_call CanConnect w) = (Inr (), w2)"
      "network_attachment_definition_created w2 = (Inr created, w3)"
      "(if created then (Inr (), w3) else create_network_attachement_definition w3) = (Inr (), w4)"
      "annotation_added_to_statefulset w4 = (Inr True, w')"
  | (add) w2 w3 w4 w5 created where "can_connect w"
      "write_config_file (record_call CanConnect w) = (Inr (), w2)"
      "network_attachment_definition_created w2 = (Inr created, w3)"
      "(if created then (Inr (), w3) else create_network_attachement_definition w3) = (Inr (), w4)"
      "annotation_added_to_statefulset w4 = (Inr False, w5)"
      "add_statefulset_pod_network_annotation w5 = (r, w')"
proof (cases "can_connect w")
  case False
  then have "on_config_changed w =
      (Inr (), w\<lparr>unit_status := WaitingStatus ''Waiting for container to be ready'',
                 deferred := True, calls := calls w @ [CanConnect]\<rparr>)"
    by (simp add: on_config_changed_def container_can_connect_def record_call_def)
  with assms have "r = Inr ()"
    "w' = w\<lparr>unit_status := WaitingStatus ''Waiting for container to be ready'',
             deferred := True, calls := calls w @ [CanConnect]\<rparr>"
    by simp_all
  with False show thesis by (rule not_ready)
next
  case cc: True
  obtain r2 w2 where s2: "write_config_file (record_call CanConnect w) = (r2, w2)"
    by (cases "write_config_file (record_call CanConnect w)")
  show thesis
  proof (cases r2)
    case (Inl e)
    with cc s2 have "on_config_changed w = (Inl e, w2)"
      by (simp add: on_config_changed_def container_can_connect_def)
    with assms have "r = Inl e" "w' = w2" by simp_all
    with cc s2 Inl show thesis by (intro write_failed [of e]) simp_all
  next
    case r2: (Inr u)
    obtain created w3 where s3: "network_attachment_definition_created w2 = (Inr created, w3)"
      by (simp add: created_eq)
    obtain r4 w4 where s4:
      "(if created then (Inr (), w3) else create_network_attachement_definition w3) = (r4, w4)"
      by (cases "(if created then (Inr (), w3) else create_network_attachement_definition w3)")
    show thesis
    proof (cases r4)
      case (Inl e)
      with s4 have nc: "\<not> created" and c4: "create_network_attachement_definition w3 = (Inl e, w4)"
        by (auto split: if_splits)
      with cc s2 r2 s3 have "on_config_changed w = (Inl e, w4)"
        by (simp add: on_config_changed_def container_can_connect_def)
      with assms have "r = Inl e" "w' = w4" by simp_all
      with cc s2 r2 s3 nc c4 show thesis by (intro create_failed [of e w2 w3]) simp_all
    next
      case r4: (Inr u4)
      obtain r5 w5 where s5: "annotation_added_to_statefulset w4 = (r5, w5)"
        by (cases "annotation_added_to_statefulset w4")
      have pre: "on_config_changed w =
          (case r5 of Inl e \<Rightarrow> (Inl e, w5)
           | Inr added \<Rightarrow> (if \<not> added then add_statefulset_pod_network_annotation w5
                           else (Inr (), w5)))"
        using cc s2 r2 s3 s4 r4 s5
        by (cases created) (simp_all add: on_config_changed_def container_can_connect_def)
      show thesis
      proof (cases r5)
        case (Inl e)
        with pre assms have "r = Inl e" "w' = w5" by simp_all
        with cc s2 r2 s3 s4 r4 s5 Inl show thesis
          by (intro check_failed [of e w2 created w3 w4]) simp_all
      next
        case (Inr added)
        show thesis
        proof (cases added)
          case True
          with pre assms Inr have "r = Inr ()" "w' = w5" by simp_all
          with cc s2 r2 s3 s4 r4 s5 Inr True show thesis
            by (intro present [of w2 created w3 w4]) simp_all
        next
          case False
          with pre assms Inr have "add_statefulset_pod_network_annotation w5 = (r, w')"
            by simp
          with cc s2 r2 s3 s4 r4 s5 Inr False show thesis
            by (intro add [of w2 created w3 w4 w5]) simp_all
        qed
      qed
    qed
  qed
qed

subsection \<open>After a pass that went through\<close>

lemma successful_pass_post:
  assumes "on_config_changed w = (Inr (), w1)" and "can_connect w" and "fault w GetNAD = None"
  shows "config w1 = config w \<and> model_name w1 = model_name w \<and> app_name w1 = app_name w \<and>
    template w1 = template w \<and> can_connect w1 \<and> fault w1 = fault w \<and>
    (\<exists>cidr. map_of (config w) ''ngap-ip'' = Some cidr \<and>
       files w1 config_file_path = Some (template w (hd (split_str CHR ''/'' cidr)))) \<and>
    nads w1 (model_name w, NETWORK_ATTACHMENT_DEFINITION_NAME) \<noteq> None \<and>
    fault w GetSTS = None \<and>
    (\<exists>s a. statefulsets w1 (model_name w, app_name w) = Some s \<and> annotations s = Some a \<and>
       map_of a multus_key \<noteq> None)"
  using assms(1)
proof (cases rule: on_config_changed_cases)
  case not_ready
  with assms show ?thesis by simp
next
  case (write_failed e)
  then show ?thesis by simp
next
  case (create_failed e w2 w3)
  then show ?thesis by simp
next
  case (check_failed e w2 w3 w4 created)
  then show ?thesis by simp
next
  case (present w2 w3 w4 created)
  from present(3) obtain cidr where c: "map_of (config w) ''ngap-ip'' = Some cidr"
    and w2: "w2 = w\<lparr>files := (files w)(config_file_path \<mapsto>
        template w (hd (split_str CHR ''/'' cidr))),
      calls := calls w @ [CanConnect, Push config_file_path
        (template w (hd (split_str CHR ''/'' cidr)))]\<rparr>"
    by (auto dest!: write_config_file_Inr simp: record_call_def)
  from present(4) w2 assms(3) have cr: "created = (nads w
      (model_name w, NETWORK_ATTACHMENT_DEFINITION_NAME) \<noteq> None)"
    and w3: "w3 = w2\<lparr>calls := calls w2 @
      [NadGet NETWORK_ATTACHMENT_DEFINITION_NAME (model_name w)]\<rparr>"
    by (auto simp: created_eq)
  from present(5) cr w3 w2 have w4: "nads w4 (model_name w, NETWORK_ATTACHMENT_DEFINITION_NAME) \<noteq> None"
    "config w4 = config w" "model_name w4 = model_name w" "app_name w4 = app_name w"
    "template w4 = template w" "can_connect w4 = can_connect w" "fault w4 = fault w"
    "files w4 = files w2" "statefulsets w4 = statefulsets w"
    by (auto dest!: create_Inr split: if_splits)
  from present(6) have w1: "w1 = w4\<lparr>calls := calls w4 @ [StsGet (app_name w4) (model_name w4)]\<rparr>"
    by (rule added_world)
  from present(6) w4 have "fault w GetSTS = None \<and>
     (\<exists>s a. statefulsets w4 (model_name w, app_name w) = Some s \<and> annotations s = Some a \<and>
        map_of a multus_key \<noteq> None)"
    by (auto dest!: added_Inr)
  with w1 w4 w2 c assms(2) show ?thesis by auto
next
  case (add w2 w3 w4 w5 created)
  from add(2) obtain cidr where c: "map_of (config w) ''ngap-ip'' = Some cidr"
    and w2: "w2 = w\<lparr>files := (files w)(config_file_path \<mapsto>
        template w (hd (split_str CHR ''/'' cidr))),
      calls := calls w @ [CanConnect, Push config_file_path
        (template w (hd (split_str CHR ''/'' cidr)))]\<rparr>"
    by (auto dest!: write_config_file_Inr simp: record_call_def)
  from add(3) w2 assms(3) have cr: "created = (nads w
      (model_name w, NETWORK_ATTACHMENT_DEFINITION_NAME) \<noteq> None)"
    and w3: "w3 = w2\<lparr>calls := calls w2 @
      [NadGet NETWORK_ATTACHMENT_DEFINITION_NAME (model_name w)]\<rparr>"
    by (auto simp: created_eq)
  from add(4) cr w3 w2 have w4: "nads w4 (model_name w, NETWORK_ATTACHMENT_DEFINITION_NAME) \<noteq> None"
    "config w4 = config w" "model_name w4 = model_name w" "app_name w4 = app_name w"
    "template w4 = template w" "can_connect w4 = can_connect w" "fault w4 = fault w"
    "files w4 = files w2" "statefulsets w4 = statefulsets w"
    by (auto dest!: create_Inr split: if_splits)
  from add(5) have w5: "w5 = w4\<lparr>calls := calls w4 @ [StsGet (app_name w4) (model_name w4)]\<rparr>"
    by (rule added_world)
  from add(5) w4 have g: "fault w GetSTS = None"
    by (auto dest!: added_Inr)
  from add(6) w5 w4 have "nads w1 = nads w4" "config w1 = config w" "model_name w1 = model_name w"
    "app_name w1 = app_name w"
    "template w1 = template w" "can_connect w1 = can_connect w" "fault w1 = fault w"
    "files w1 = files w2"
    "\<exists>s a. statefulsets w1 (model_name w, app_name w) = Some s \<and> annotations s = Some a \<and>
       map_of a multus_key \<noteq> None"
    by (auto dest!: add_Inr simp: update_conv' merge_conv')
  with w4 w2 c g assms(2) show ?thesis by auto
qed

lemma pass_when_converged:
  assumes "can_connect w" and "map_of (config w) ''ngap-ip'' = Some cidr"
    and "files w config_file_path = Some (template w (hd (split_str CHR ''/'' cidr)))"
    and "fault w GetNAD = None"
    and "nads w (model_name w, NETWORK_ATTACHMENT_DEFINITION_NAME) \<noteq> None"
    and "fault w GetSTS = None"
    and "statefulsets w (model_name w, app_name w) = Some s" and "annotations s = Some a"
    and "map_of a multus_key \<noteq> None"
  shows "on_config_changed w =
      (Inr (), w\<lparr>calls := calls w @
         [CanConnect,
          Push config_file_path (template w (hd (split_str CHR ''/'' cidr))),
          NadGet NETWORK_ATTACHMENT_DEFINITION_NAME (model_name w),
          StsGet (app_name w) (model_name w)]\<rparr>)"
proof -
  from assms(3) have "(files w)(config_file_path \<mapsto> template w (hd (split_str CHR ''/'' cidr)))
     = files w"
    by (rule map_upd_triv)
  with assms show ?thesis
    by (auto simp: on_config_changed_def write_config_file_def config_defs created_eq
      annotation_added_to_statefulset_def container_can_connect_def container_push_def
      client_get_sts_def record_call_def Let_def)
qed

subsection \<open>The trace of a pass\<close>

lemma last_call_split:
  assumes "xs @ [a] = pre @ b # post" and "b \<notin> set xs"
  shows "pre = xs \<and> post = [] \<and> a = b"
proof (cases post rule: rev_cases)
  case Nil
  with assms show ?thesis by simp
next
  case (snoc ps p)
  with assms have "xs = pre @ b # ps" by simp
  with assms(2) show ?thesis by simp
qed

lemma attachment_step:
  assumes "write_config_file (record_call CanConnect w) = (Inr (), w2)"
    and "network_attachment_definition_created w2 = (Inr created, w3)"
    and "(if created then (Inr (), w3) else create_network_attachement_definition w3) =
           (Inr (), w4)"
  shows "\<exists>content cre.
      calls w4 = calls w @ [CanConnect, Push config_file_path content,
                           NadGet NETWORK_ATTACHMENT_DEFINITION_NAME (model_name w)] @ cre \<and>
      (cre = [] \<and> fault w GetNAD = None \<and>
         nads w (model_name w, NETWORK_ATTACHMENT_DEFINITION_NAME) \<noteq> None \<or>
       (\<exists>nad. cre = [NadCreate nad (model_name w)] \<and>
          metadata_name nad = NETWORK_ATTACHMENT_DEFINITION_NAME \<and>
          nads w (model_name w, NETWORK_ATTACHMENT_DEFINITION_NAME) = None \<and>
          fault w CreateNAD = None)) \<and>
      nads w4 (model_name w, NETWORK_ATTACHMENT_DEFINITION_NAME) \<noteq> None \<and>
      statefulsets w4 = statefulsets w \<and> fault w4 = fault w \<and> config w4 = config w \<and>
      model_name w4 = model_name w \<and> app_name w4 = app_name w"
proof -
  from assms(1) obtain content where
    w2: "w2 = w\<lparr>files := (files w)(config_file_path \<mapsto> content),
      calls := calls w @ [CanConnect, Push config_file_path content]\<rparr>"
    by (auto dest!: write_config_file_Inr simp: record_call_def)
  from assms(2) w2 have cr: "created = (fault w GetNAD = None \<and>
      nads w (model_name w, NETWORK_ATTACHMENT_DEFINITION_NAME) \<noteq> None)"
    and w3: "w3 = w\<lparr>files := (files w)(config_file_path \<mapsto> content),
      calls := calls w @ [CanConnect, Push config_file_path content,
        NadGet NETWORK_ATTACHMENT_DEFINITION_NAME (model_name w)]\<rparr>"
    by (auto simp: created_eq)
  show ?thesis
  proof (cases created)
    case True
    with assms(3) cr w3 show ?thesis by auto
  next
    case False
    with assms(3) have "create_network_attachement_definition w3 = (Inr (), w4)"
      by simp
    from create_Inr [OF this] w3 show ?thesis
      by auto
  qed
qed

lemma pass_calls:
  assumes "on_config_changed w = (r, w')" and "c \<in> set (new_calls w w')"
  shows "c = CanConnect \<or> (\<exists>content. c = Push config_file_path content) \<or>
    c = NadGet NETWORK_ATTACHMENT_DEFINITION_NAME (model_name w) \<or>
    (\<exists>nad. c = NadCreate nad (model_name w) \<and>
       metadata_name nad = NETWORK_ATTACHMENT_DEFINITION_NAME) \<or>
    c = StsGet (app_name w) (model_name w) \<or>
    (\<exists>obj. c = StsPatch (app_name w) obj (model_name w))"
  using assms(1)
proof (cases rule: on_config_changed_cases)
  case not_ready
  with assms(2) show ?thesis by (simp add: new_calls_def)
next
  case (write_failed e)
  with assms(2) show ?thesis
    by (auto dest!: write_config_file_Inl simp: record_call_def new_calls_def)
next
  case (create_failed e w2 w3)
  with assms(2) show ?thesis
    by (auto dest!: write_config_file_Inr create_Inl
        simp: created_eq record_call_def new_calls_def)
next
  case (check_failed e w2 w3 w4 created)
  with assms(2) show ?thesis
    by (auto dest!: write_config_file_Inr create_Inr added_world
        simp: created_eq record_call_def new_calls_def split: if_splits)
next
  case (present w2 w3 w4 created)
  with assms(2) show ?thesis
    by (auto dest!: write_config_file_Inr create_Inr added_world
        simp: created_eq record_call_def new_calls_def split: if_splits)
next
  case (add w2 w3 w4 w5 created)
  from add(2,3,4,5) have w5: "\<exists>content cre. calls w5 = calls w @ [CanConnect,
      Push config_file_path content,
      NadGet NETWORK_ATTACHMENT_DEFINITION_NAME (model_name w)] @ cre @
      [StsGet (app_name w) (model_name w)] \<and>
      (cre = [] \<or> (\<exists>nad. cre = [NadCreate nad (model_name w)] \<and>
         metadata_name nad = NETWORK_ATTACHMENT_DEFINITION_NAME))"
    "model_name w5 = model_name w" "app_name w5 = app_name w"
    by (auto dest!: write_config_file_Inr create_Inr added_world
        simp: created_eq record_call_def split: if_splits)
  from add(6) have "w' = w5 \<or> w' = w5\<lparr>calls := calls w5 @ [StsGet (app_name w5) (model_name w5)]\<rparr> \<or>
     (\<exists>obj. calls w' = calls w5 @ [StsGet (app_name w5) (model_name w5),
                    StsPatch (app_name w5) obj (model_name w5)])"
    by (cases r) (auto dest!: add_Inl add_Inr)
  with w5 assms(2) show ?thesis
    by (auto simp: new_calls_def)
qed

section \<open>Properties\<close>

subsection \<open>Deferral\<close>

text \<open>
  Claim C3. When the connectivity probe of the container returns false,
  \<^verbatim>\<open>_on_config_changed\<close> returns normally with the event deferred and the unit waiting; the
  probe is the only call it makes, so it issues no cluster call and writes no file: the
  files, the network attachment definitions and the statefulsets are those it found.
\<close>

theorem config_changed_defers_when_unreachable:
  "\<not> can_connect w \<Longrightarrow>
     on_config_changed w =
       (Inr (), w\<lparr>unit_status := WaitingStatus ''Waiting for container to be ready'',
                  deferred := True, calls := calls w @ [CanConnect]\<rparr>)"
  by (simp add: on_config_changed_def container_can_connect_def record_call_def)

theorem config_changed_defers_when_unreachable_witness:
  "\<not> can_connect (scenario_world\<lparr>can_connect := False\<rparr>) \<and>
   fst (on_config_changed (scenario_world\<lparr>can_connect := False\<rparr>)) = Inr () \<and>
   deferred (snd (on_config_changed (scenario_world\<lparr>can_connect := False\<rparr>))) \<and>
   calls (snd (on_config_changed (scenario_world\<lparr>can_connect := False\<rparr>))) = [CanConnect] \<and>
   files (snd (on_config_changed (scenario_world\<lparr>can_connect := False\<rparr>))) = Map.empty \<and>
   nads (snd (on_config_changed (scenario_world\<lparr>can_connect := False\<rparr>))) = Map.empty"
  using config_changed_defers_when_unreachable [of "scenario_world\<lparr>can_connect := False\<rparr>"]
  by (simp add: scenario_world_def)

text \<open>
  Claim C8. \<^verbatim>\<open>_on_free5gc_amf_pebble_ready\<close> checks two preconditions, in this order: the
  container is reachable, and the configuration file exists in the container. When either
  fails it defers, the unit waits, and no layer is added and no replan is asked for: the
  only calls are the probes. In particular, before the configuration file is written the
  outcome is a deferral. When both hold, the layer is added and the services replanned.
\<close>

theorem workload_ready_preconditions:
  "(\<not> can_connect w \<longrightarrow>
      on_free5gc_amf_pebble_ready w =
        (Inr (), w\<lparr>unit_status := WaitingStatus ''Waiting for container to be ready'',
                   deferred := True, calls := calls w @ [CanConnect]\<rparr>)) \<and>
   (can_connect w \<and> files w config_file_path = None \<longrightarrow>
      on_free5gc_amf_pebble_ready w =
        (Inr (), w\<lparr>unit_status := WaitingStatus ''Waiting for config file to be written'',
                   deferred := True,
                   calls := calls w @ [CanConnect, Exists config_file_path]\<rparr>)) \<and>
   (can_connect w \<and> files w config_file_path \<noteq> None \<longrightarrow>
      on_free5gc_amf_pebble_ready w =
        (Inr (), w\<lparr>unit_status := ActiveStatus,
                   calls := calls w @ [CanConnect, Exists config_file_path,
                                       AddLayer ''free5gc-amf'' pebble_layer True, Replan]\<rparr>))"
  by (auto simp: on_free5gc_amf_pebble_ready_def config_file_is_written_def collab_defs)

theorem workload_ready_preconditions_witness:
  "can_connect scenario_world \<and> files scenario_world config_file_path = None \<and>
   fst (on_free5gc_amf_pebble_ready scenario_world) = Inr () \<and>
   deferred (snd (on_free5gc_amf_pebble_ready scenario_world)) \<and>
   calls (snd (on_free5gc_amf_pebble_ready scenario_world)) =
     [CanConnect, Exists ''/free5gc/config/amfcfg.yaml''] \<and>
   calls (snd (on_free5gc_amf_pebble_ready (scenario_world\<lparr>can_connect := False\<rparr>))) =
     [CanConnect]"
  using workload_ready_preconditions [of scenario_world]
    workload_ready_preconditions [of "scenario_world\<lparr>can_connect := False\<rparr>"]
  by (simp add: scenario_world_def config_file_path_def BASE_CONFIG_PATH_def CONFIG_FILE_NAME_def)

subsection \<open>Removal\<close>

text \<open>
  Scenario E of the specification: \<^verbatim>\<open>_on_remove\<close> when the attachment never existed. The
  delete call is issued, and its \<^verbatim>\<open>NotFound\<close> is raised to the caller.
\<close>

theorem remove_not_found_counterexample:
  "nads scenario_world (model_name scenario_world, NETWORK_ATTACHMENT_DEFINITION_NAME) = None \<and>
   fst (on_remove scenario_world) = Inl (ApiError ''NotFound'') \<and>
   calls (snd (on_remove scenario_world)) = [NadDelete ''n2network-amf'' ''core'']"
  by (simp add: scenario_world_def on_remove_def delete_network_attachement_definition_def
      client_delete_nad_def record_call_def NETWORK_ATTACHMENT_DEFINITION_NAME_def)

text \<open>
  Claim C4, amended. \<^verbatim>\<open>_on_remove\<close> issues exactly one call, the delete of the network
  attachment definition of the fixed name in the namespace of the model, whatever the
  state. It has no handler: the outcome of the delete is the outcome of
  \<^verbatim>\<open>_on_remove\<close>, so a refusal of the API server and the \<^verbatim>\<open>NotFound\<close> of an absent
  attachment are both raised to the caller.
\<close>

theorem remove_always_deletes:
  "new_calls w (snd (on_remove w)) =
     [NadDelete NETWORK_ATTACHMENT_DEFINITION_NAME (model_name w)] \<and>
   fst (on_remove w) =
     (case fault w DeleteNAD of
        Some r \<Rightarrow> Inl (ApiError r)
      | None \<Rightarrow>
          (case nads w (model_name w, NETWORK_ATTACHMENT_DEFINITION_NAME) of
             None \<Rightarrow> Inl (ApiError ''NotFound'')
           | Some n \<Rightarrow> Inr ()))"
  by (simp add: on_remove_def delete_network_attachement_definition_def
      client_delete_nad_def record_call_def new_calls_def split: option.splits)

theorem remove_always_deletes_witness:
  "new_calls (with_fault DeleteNAD ''Forbidden'' scenario_world)
     (snd (on_remove (with_fault DeleteNAD ''Forbidden'' scenario_world))) =
     [NadDelete ''n2network-amf'' ''core''] \<and>
   fst (on_remove (with_fault DeleteNAD ''Forbidden'' scenario_world)) =
     Inl (ApiError ''Forbidden'')"
  using remove_always_deletes [of "with_fault DeleteNAD ''Forbidden'' scenario_world"]
  by (simp add: with_fault_def scenario_world_def NETWORK_ATTACHMENT_DEFINITION_NAME_def)

subsection \<open>A first pass\<close>

text \<open>
  Claim C1 (scenario A). With the configuration of the scenario, the container reachable,
  the attachment absent, pod annotations that lack the Multus key, and an API server that
  refuses nothing, one pass returns normally and makes exactly these calls, in this
  order: the probe; the push of the template rendered with \<^verbatim>\<open>10.0.0.5\<close> to the
  configuration path; the get of the attachment; one create of the attachment, whose
  plugin has master \<^verbatim>\<open>eth1\<close> and a static IPAM with the route \<^verbatim>\<open>0.0.0.0/0\<close> via
  \<^verbatim>\<open>10.0.0.1\<close>; the get of the statefulset, twice (the check, then the read before the
  write); one merge patch whose annotations are the old ones and the Multus key, with an
  entry naming the attachment and \<^verbatim>\<open>ips\<close> \<^verbatim>\<open>10.0.0.5/24\<close>. The file then holds the
  rendering, which contains \<^verbatim>\<open>10.0.0.5\<close> for a template that reproduces the address.
\<close>

theorem scenario_A:
  assumes "config w = scenario_config" and "can_connect w" and "fault w = (\<lambda>v. None)"
    and "nads w (model_name w, NETWORK_ATTACHMENT_DEFINITION_NAME) = None"
    and "statefulsets w (model_name w, app_name w) = Some s"
    and "annotations s = Some a" and "map_of a multus_key = None"
  shows "fst (on_config_changed w) = Inr () \<and>
    new_calls w (snd (on_config_changed w)) =
      [CanConnect,
       Push config_file_path (template w ''10.0.0.5''),
       NadGet NETWORK_ATTACHMENT_DEFINITION_NAME (model_name w),
       NadCreate
         \<lparr>metadata_name = NETWORK_ATTACHMENT_DEFINITION_NAME,
          spec = [(''config'', json_dumps (JObj
            [(''cniVersion'', JStr ''0.3.1''),
             (''plugins'', JArr [
                JObj [(''type'', JStr ''macvlan''),
                      (''capabilities'', JObj [(''ips'', JBool True)]),
                      (''master'', JStr ''eth1''),
                      (''mode'', JStr ''bridge''),
                      (''ipam'', JObj [(''type'', JStr ''static''),
                         (''routes'', JArr [JObj [(''dst'', JStr ''0.0.0.0/0''),
                                                 (''gw'', JStr ''10.0.0.1'')]])])],
                JObj [(''capabilities'', JObj [(''mac'', JBool True)]),
                      (''type'', JStr ''tuning'')]])]))]\<rparr>
         (model_name w),
       StsGet (app_name w) (model_name w),
       StsGet (app_name w) (model_name w),
       StsPatch (app_name w)
         (s\<lparr>annotations := Some (a @ [(multus_key, json_dumps (JArr
            [JObj [(''name'', JStr NETWORK_ATTACHMENT_DEFINITION_NAME),
                   (''interface'', JStr ''n2''),
                   (''ips'', JStr ''10.0.0.5/24''),
                   (''gateway'', JStr ''10.0.0.1'')]]))])\<rparr>)
         (model_name w)] \<and>
    files (snd (on_config_changed w)) config_file_path = Some (template w ''10.0.0.5'') \<and>
    ((\<forall>ip. sublist ip (template w ip)) \<longrightarrow>
       (\<exists>content. files (snd (on_config_changed w)) config_file_path = Some content \<and>
          sublist ''10.0.0.5'' content))"
  using assms
  by (simp add: charm_defs collab_defs Let_def new_calls_def scenario_config_def update_fresh
      nad_spec_def multus_annotation_def merge_annotations_def)

theorem scenario_A_witness:
  "config scenario_world = scenario_config \<and> can_connect scenario_world \<and>
   fault scenario_world = (\<lambda>v. None) \<and>
   nads scenario_world (model_name scenario_world, NETWORK_ATTACHMENT_DEFINITION_NAME) = None \<and>
   statefulsets scenario_world (model_name scenario_world, app_name scenario_world) =
     Some \<lparr>annotations = Some [(''app'', ''amf'')]\<rparr> \<and>
   map_of [(''app'', ''amf'')] multus_key = None \<and>
   (\<forall>ip. sublist ip (template scenario_world ip)) \<and>
   fst (on_config_changed scenario_world) = Inr () \<and>
   length (new_calls scenario_world (snd (on_config_changed scenario_world))) = 7 \<and>
   files (snd (on_config_changed scenario_world)) config_file_path = Some ''ngapIpList: 10.0.0.5'' \<and>
   (\<exists>content. files (snd (on_config_changed scenario_world)) config_file_path = Some content \<and>
      sublist ''10.0.0.5'' content)"
proof -
  have h: "config scenario_world = scenario_config" "can_connect scenario_world"
    "fault scenario_world = (\<lambda>v. None)"
    "nads scenario_world (model_name scenario_world, NETWORK_ATTACHMENT_DEFINITION_NAME) = None"
    "statefulsets scenario_world (model_name scenario_world, app_name scenario_world) =
       Some \<lparr>annotations = Some [(''app'', ''amf'')]\<rparr>"
    "annotations \<lparr>annotations = Some [(''app'', ''amf'')]\<rparr> = Some [(''app'', ''amf'')]"
    "map_of [(''app'', ''amf'')] multus_key = None"
    by (simp_all add: scenario_world_def multus_key_def)
  have "\<And>ip. sublist ip (example_template ip)"
    unfolding example_template_def by (rule sublist_append_leftI)
  then have t: "\<forall>ip. sublist ip (template scenario_world ip)"
    by (simp add: scenario_world_def)
  have e: "template scenario_world ''10.0.0.5'' = ''ngapIpList: 10.0.0.5''"
    by (simp add: scenario_world_def example_template_def)
  note r = scenario_A [OF h]
  from r have 1: "fst (on_config_changed scenario_world) = Inr ()"
    by (rule conjunct1)
  from r have 2: "length (new_calls scenario_world (snd (on_config_changed scenario_world))) = 7"
    by (elim conjE) (simp (no_asm_simp) del: json_dumps.simps)
  from r e have 3: "files (snd (on_config_changed scenario_world)) config_file_path =
      Some ''ngapIpList: 10.0.0.5''"
    by (elim conjE) (simp only:)
  from r t have 4: "\<exists>content. files (snd (on_config_changed scenario_world)) config_file_path =
      Some content \<and> sublist ''10.0.0.5'' content"
    by (elim conjE) blast
  from h(1-5,7) t 1 2 3 4 show ?thesis
    by (intro conjI)
qed

subsection \<open>Errors of the create call\<close>

text \<open>
  The API server answers \<^verbatim>\<open>AlreadyExists\<close> to the create: the pass raises it after the
  create call and never reaches the statefulset.
\<close>

theorem create_already_exists_counterexample:
  "fst (on_config_changed (with_fault CreateNAD ''AlreadyExists'' scenario_world)) =
     Inl (ApiError ''AlreadyExists'') \<and>
   new_calls (with_fault CreateNAD ''AlreadyExists'' scenario_world)
     (snd (on_config_changed (with_fault CreateNAD ''AlreadyExists'' scenario_world))) =
     [CanConnect,
      Push ''/free5gc/config/amfcfg.yaml'' ''ngapIpList: 10.0.0.5'',
      NadGet ''n2network-amf'' ''core'',
      NadCreate \<lparr>metadata_name = ''n2network-amf'',
                 spec = [(''config'', json_dumps (nad_spec ''eth1'' ''10.0.0.1''))]\<rparr> ''core'']"
  by (simp add: charm_defs collab_defs Let_def new_calls_def scenario_world_def with_fault_def
      scenario_config_def example_template_def config_file_path_def BASE_CONFIG_PATH_def
      CONFIG_FILE_NAME_def NETWORK_ATTACHMENT_DEFINITION_NAME_def)

text \<open>
  Claim C5, amended. The create call has no handler. When the existence check reports
  the attachment absent and the create call fails, with \<^verbatim>\<open>AlreadyExists\<close> (the attachment
  does exist, or the API server says so) or with any other reason, the error is raised to
  the caller and the pass stops there: the create is its last call, and attachments and
  statefulsets are unchanged.
\<close>

theorem create_error_propagates:
  assumes "can_connect w"
    and "map_of (config w) ''ngap-ip'' = Some cidr"
    and "map_of (config w) ''interface'' = Some i"
    and "map_of (config w) ''ngap-gateway'' = Some g"
    and "fault w GetNAD \<noteq> None \<or>
         nads w (model_name w, NETWORK_ATTACHMENT_DEFINITION_NAME) = None"
    and "fault w CreateNAD = Some r \<or>
         (fault w CreateNAD = None \<and> r = ''AlreadyExists'' \<and>
          nads w (model_name w, NETWORK_ATTACHMENT_DEFINITION_NAME) \<noteq> None)"
  shows "fst (on_config_changed w) = Inl (ApiError r) \<and>
    new_calls w (snd (on_config_changed w)) =
      [CanConnect,
       Push config_file_path (template w (hd (split_str CHR ''/'' cidr))),
       NadGet NETWORK_ATTACHMENT_DEFINITION_NAME (model_name w),
       NadCreate \<lparr>metadata_name = NETWORK_ATTACHMENT_DEFINITION_NAME,
                  spec = [(''config'', json_dumps (nad_spec i g))]\<rparr> (model_name w)] \<and>
    nads (snd (on_config_changed w)) = nads w \<and>
    statefulsets (snd (on_config_changed w)) = statefulsets w"
  using assms
  by (auto simp: on_config_changed_def write_config_file_def config_defs created_eq
      create_network_attachement_definition_def container_can_connect_def container_push_def
      client_create_nad_def record_call_def Let_def new_calls_def)

theorem create_error_propagates_witness:
  "fault (with_fault GetNAD ''Forbidden'' (scenario_world\<lparr>nads :=
       [(''core'', ''n2network-amf'') \<mapsto> \<lparr>metadata_name = ''n2network-amf'', spec = []\<rparr>]\<rparr>))
     GetNAD \<noteq> None \<and>
   fst (on_config_changed (with_fault GetNAD ''Forbidden'' (scenario_world\<lparr>nads :=
       [(''core'', ''n2network-amf'') \<mapsto> \<lparr>metadata_name = ''n2network-amf'', spec = []\<rparr>]\<rparr>))) =
     Inl (ApiError ''AlreadyExists'')"
  using create_error_propagates [of "with_fault GetNAD ''Forbidden'' (scenario_world\<lparr>nads :=
       [(''core'', ''n2network-amf'') \<mapsto> \<lparr>metadata_name = ''n2network-amf'', spec = []\<rparr>]\<rparr>)"
       "''10.0.0.5/24''" "''eth1''" "''10.0.0.1''" "''AlreadyExists''"]
  by (simp add: with_fault_def scenario_world_def scenario_config_def
      NETWORK_ATTACHMENT_DEFINITION_NAME_def)

subsection \<open>Errors of the existence check\<close>

text \<open>
  The API server answers \<^verbatim>\<open>Forbidden\<close> to the get of the attachment: the pass does not
  raise; it goes on to create the attachment and to patch the statefulset.
\<close>

theorem get_forbidden_counterexample:
  "fst (on_config_changed (with_fault GetNAD ''Forbidden'' scenario_world)) = Inr () \<and>
   new_calls (with_fault GetNAD ''Forbidden'' scenario_world)
     (snd (on_config_changed (with_fault GetNAD ''Forbidden'' scenario_world))) =
     [CanConnect,
      Push ''/free5gc/config/amfcfg.yaml'' ''ngapIpList: 10.0.0.5'',
      NadGet ''n2network-amf'' ''core'',
      NadCreate \<lparr>metadata_name = ''n2network-amf'',
                 spec = [(''config'', json_dumps (nad_spec ''eth1'' ''10.0.0.1''))]\<rparr> ''core'',
      StsGet ''free5gc-amf'' ''core'',
      StsGet ''free5gc-amf'' ''core'',
      StsPatch ''free5gc-amf''
        \<lparr>annotations = Some [(''app'', ''amf''),
           (''k8s.v1.cni.cncf.io/networks'',
            json_dumps (multus_annotation ''10.0.0.5/24'' ''10.0.0.1''))]\<rparr> ''core'']"
  by (simp add: charm_defs collab_defs Let_def new_calls_def scenario_world_def with_fault_def
      scenario_config_def example_template_def config_file_path_def BASE_CONFIG_PATH_def
      CONFIG_FILE_NAME_def NETWORK_ATTACHMENT_DEFINITION_NAME_def multus_key_def
      merge_annotations_def)

text \<open>
  Claim C6, amended. An \<^verbatim>\<open>ApiError\<close> of the get of the attachment is caught whatever its
  reason: the check reports the attachment absent, exactly as for \<^verbatim>\<open>NotFound\<close>, and a pass
  whose configuration is complete goes on to issue the create call.
\<close>

theorem get_error_reported_absent:
  assumes "fault w GetNAD = Some r"
  shows "network_attachment_definition_created w =
      (Inr False, w\<lparr>calls := calls w @
         [NadGet NETWORK_ATTACHMENT_DEFINITION_NAME (model_name w)]\<rparr>) \<and>
    (can_connect w \<and> map_of (config w) ''ngap-ip'' = Some cidr \<and>
     map_of (config w) ''interface'' = Some i \<and> map_of (config w) ''ngap-gateway'' = Some g \<longrightarrow>
       take 4 (new_calls w (snd (on_config_changed w))) =
         [CanConnect,
          Push config_file_path (template w (hd (split_str CHR ''/'' cidr))),
          NadGet NETWORK_ATTACHMENT_DEFINITION_NAME (model_name w),
          NadCreate \<lparr>metadata_name = NETWORK_ATTACHMENT_DEFINITION_NAME,
                     spec = [(''config'', json_dumps (nad_spec i g))]\<rparr> (model_name w)])"
proof -
  have c: "network_attachment_definition_created w =
      (Inr False, w\<lparr>calls := calls w @
         [NadGet NETWORK_ATTACHMENT_DEFINITION_NAME (model_name w)]\<rparr>)"
    using assms by (simp add: created_eq)
  have "take 4 (new_calls w (snd (on_config_changed w))) =
         [CanConnect,
          Push config_file_path (template w (hd (split_str CHR ''/'' cidr))),
          NadGet NETWORK_ATTACHMENT_DEFINITION_NAME (model_name w),
          NadCreate \<lparr>metadata_name = NETWORK_ATTACHMENT_DEFINITION_NAME,
                     spec = [(''config'', json_dumps (nad_spec i g))]\<rparr> (model_name w)]"
    if h: "can_connect w" "map_of (config w) ''ngap-ip'' = Some cidr"
      "map_of (config w) ''interface'' = Some i" "map_of (config w) ''ngap-gateway'' = Some g"
  proof -
    obtain r' w' where p: "on_config_changed w = (r', w')"
      by (cases "on_config_changed w")
    from p show ?thesis
    proof (cases rule: on_config_changed_cases)
      case not_ready
      with h show ?thesis by simp
    next
      case (write_failed e)
      with h show ?thesis
        by (simp add: write_config_file_def config_defs record_call_def)
    next
      case (create_failed e w2 w3)
      with h assms p show ?thesis
        by (auto simp: write_config_file_def config_defs created_eq Let_def
            create_network_attachement_definition_def container_push_def
            client_create_nad_def record_call_def new_calls_def split: option.splits)
    next
      case (check_failed e w2 created w3 w4)
      with h assms p show ?thesis
        by (auto simp: write_config_file_def config_defs created_eq Let_def
            create_network_attachement_definition_def container_push_def
            client_create_nad_def record_call_def new_calls_def
            dest!: added_world split: option.splits)
    next
      case (present w2 created w3 w4)
      with h assms p show ?thesis
        by (auto simp: write_config_file_def config_defs created_eq Let_def
            create_network_attachement_definition_def container_push_def
            client_create_nad_def record_call_def new_calls_def
            dest!: added_world split: option.splits)
    next
      case (add w2 created w3 w4 w5)
      with h assms p show ?thesis
        apply (cases r')
        by (auto simp: write_config_file_def config_defs created_eq Let_def
            create_network_attachement_definition_def container_push_def
            client_create_nad_def record_call_def new_calls_def
            dest!: added_world add_Inr add_Inl split: option.splits)
    qed
  qed
  with c show ?thesis by blast
qed

theorem get_error_reported_absent_witness:
  "fault (with_fault GetNAD ''Forbidden'' scenario_world) GetNAD = Some ''Forbidden'' \<and>
   fst (network_attachment_definition_created (with_fault GetNAD ''Forbidden'' scenario_world)) =
     Inr False \<and>
   take 4 (new_calls (with_fault GetNAD ''Forbidden'' scenario_world)
     (snd (on_config_changed (with_fault GetNAD ''Forbidden'' scenario_world)))) =
     [CanConnect,
      Push config_file_path ''ngapIpList: 10.0.0.5'',
      NadGet NETWORK_ATTACHMENT_DEFINITION_NAME ''core'',
      NadCreate \<lparr>metadata_name = NETWORK_ATTACHMENT_DEFINITION_NAME,
                 spec = [(''config'', json_dumps (nad_spec ''eth1'' ''10.0.0.1''))]\<rparr> ''core'']"
proof -
  let ?w = "with_fault GetNAD ''Forbidden'' scenario_world"
  have h: "fault ?w GetNAD = Some ''Forbidden''"
    by (simp add: with_fault_def)
  have c: "can_connect ?w \<and> map_of (config ?w) ''ngap-ip'' = Some ''10.0.0.5/24'' \<and>
     map_of (config ?w) ''interface'' = Some ''eth1'' \<and>
     map_of (config ?w) ''ngap-gateway'' = Some ''10.0.0.1''"
    by (simp add: with_fault_def scenario_world_def scenario_config_def)
  have e: "template ?w (hd (split_str CHR ''/'' ''10.0.0.5/24'')) = ''ngapIpList: 10.0.0.5''"
    "model_name ?w = ''core''"
    by (simp_all add: with_fault_def scenario_world_def example_template_def)
  from get_error_reported_absent [OF h, of "''10.0.0.5/24''" "''eth1''" "''10.0.0.1''"] c
  have "fst (network_attachment_definition_created ?w) = Inr False"
    and "take 4 (new_calls ?w (snd (on_config_changed ?w))) =
         [CanConnect,
          Push config_file_path (template ?w (hd (split_str CHR ''/'' ''10.0.0.5/24''))),
          NadGet NETWORK_ATTACHMENT_DEFINITION_NAME (model_name ?w),
          NadCreate \<lparr>metadata_name = NETWORK_ATTACHMENT_DEFINITION_NAME,
                     spec = [(''config'', json_dumps (nad_spec ''eth1'' ''10.0.0.1''))]\<rparr>
            (model_name ?w)]"
    by simp_all
  with h e show ?thesis by (simp only:)
qed

subsection \<open>A second pass\<close>

text \<open>
  Claim C2. Let a pass on a reachable container return normally, and let the get of the
  attachment not be refused, so that the second pass observes what the first left. Then
  a second pass, run on the world the first one left, returns normally and changes
  nothing but the trace: it probes, pushes the configuration file again, gets the
  attachment and gets the statefulset. It issues no create and no patch, and the
  attachments, the statefulsets and the files are those the first pass left.
\<close>

theorem second_pass_changes_nothing:
  assumes "on_config_changed w = (Inr (), w1)" and "can_connect w" and "fault w GetNAD = None"
  shows "\<exists>content.
    on_config_changed w1 =
      (Inr (), w1\<lparr>calls := calls w1 @
         [CanConnect,
          Push config_file_path content,
          NadGet NETWORK_ATTACHMENT_DEFINITION_NAME (model_name w),
          StsGet (app_name w) (model_name w)]\<rparr>)"
proof -
  from successful_pass_post [OF assms] obtain cidr s a where
    e: "config w1 = config w" "model_name w1 = model_name w" "app_name w1 = app_name w"
      "template w1 = template w" "can_connect w1" "fault w1 = fault w"
    and c: "map_of (config w) ''ngap-ip'' = Some cidr"
      "files w1 config_file_path = Some (template w (hd (split_str CHR ''/'' cidr)))"
    and n: "nads w1 (model_name w, NETWORK_ATTACHMENT_DEFINITION_NAME) \<noteq> None"
      "fault w GetSTS = None"
    and s: "statefulsets w1 (model_name w, app_name w) = Some s" "annotations s = Some a"
      "map_of a multus_key \<noteq> None"
    by blast
  have "on_config_changed w1 =
      (Inr (), w1\<lparr>calls := calls w1 @
         [CanConnect,
          Push config_file_path (template w1 (hd (split_str CHR ''/'' cidr))),
          NadGet NETWORK_ATTACHMENT_DEFINITION_NAME (model_name w1),
          StsGet (app_name w1) (model_name w1)]\<rparr>)"
    using e c n s assms(3) by (intro pass_when_converged [where s = s and a = a]) simp_all
  with e show ?thesis by auto
qed

theorem second_pass_changes_nothing_witness:
  "on_config_changed scenario_world = (Inr (), snd (on_config_changed scenario_world)) \<and>
   can_connect scenario_world \<and> fault scenario_world GetNAD = None \<and>
   (\<exists>content.
      new_calls (snd (on_config_changed scenario_world))
        (snd (on_config_changed (snd (on_config_changed scenario_world)))) =
        [CanConnect, Push config_file_path content,
         NadGet NETWORK_ATTACHMENT_DEFINITION_NAME ''core'', StsGet ''free5gc-amf'' ''core''])"
proof -
  have "fst (on_config_changed scenario_world) = Inr ()"
    by (simp add: charm_defs collab_defs Let_def scenario_world_def scenario_config_def
        multus_key_def NETWORK_ATTACHMENT_DEFINITION_NAME_def)
  then have 1: "on_config_changed scenario_world = (Inr (), snd (on_config_changed scenario_world))"
    by (simp add: prod_eq_iff)
  have 2: "can_connect scenario_world" "fault scenario_world GetNAD = None"
    "model_name scenario_world = ''core''" "app_name scenario_world = ''free5gc-amf''"
    by (simp_all add: scenario_world_def)
  from second_pass_changes_nothing [OF 1 2(1,2)] 2(3,4)
  have "\<exists>content.
      new_calls (snd (on_config_changed scenario_world))
        (snd (on_config_changed (snd (on_config_changed scenario_world)))) =
        [CanConnect, Push config_file_path content,
         NadGet NETWORK_ATTACHMENT_DEFINITION_NAME ''core'', StsGet ''free5gc-amf'' ''core'']"
    by (auto simp: new_calls_def)
  with 1 2 show ?thesis by blast
qed

subsection \<open>Order of the calls\<close>

text \<open>
  Claim C7. Whenever a pass issues the merge patch of the statefulset, the get of the
  attachment comes before it in the trace of that pass, and the attachment was found by
  that get or was created by a create call that comes before the patch as well; the
  attachment exists when the pass ends. The patch is the last call of the pass.
\<close>

theorem patch_after_attachment:
  assumes "on_config_changed w = (r, w')"
    and "new_calls w w' = pre @ StsPatch n obj ns # post"
  shows "NadGet NETWORK_ATTACHMENT_DEFINITION_NAME (model_name w) \<in> set pre \<and>
    (fault w GetNAD = None \<and>
       nads w (model_name w, NETWORK_ATTACHMENT_DEFINITION_NAME) \<noteq> None \<or>
     (\<exists>nad. NadCreate nad (model_name w) \<in> set pre \<and>
        metadata_name nad = NETWORK_ATTACHMENT_DEFINITION_NAME \<and>
        nads w (model_name w, NETWORK_ATTACHMENT_DEFINITION_NAME) = None \<and>
        fault w CreateNAD = None)) \<and>
    nads w' (model_name w, NETWORK_ATTACHMENT_DEFINITION_NAME) \<noteq> None \<and>
    post = []"
proof -
  from assms(2) have m: "StsPatch n obj ns \<in> set (new_calls w w')"
    by simp
  from assms(1) show ?thesis
  proof (cases rule: on_config_changed_cases)
    case not_ready
    with m show ?thesis by (simp add: new_calls_def)
  next
    case (write_failed e)
    with m show ?thesis
      by (auto dest!: write_config_file_Inl simp: record_call_def new_calls_def)
  next
    case (create_failed e w2 w3)
    with m show ?thesis
      by (auto dest!: write_config_file_Inr create_Inl
          simp: created_eq record_call_def new_calls_def)
  next
    case (check_failed e w2 w3 w4 created)
    from attachment_step [OF check_failed(3,4,5)] check_failed(6) m show ?thesis
      by (auto dest!: added_world simp: new_calls_def)
  next
    case (present w2 w3 w4 created)
    from attachment_step [OF present(3,4,5)] present(6) m show ?thesis
      by (auto dest!: added_world simp: new_calls_def)
  next
    case (add w2 w3 w4 w5 created)
    from attachment_step [OF add(2,3,4)] obtain content cre where
      c4: "calls w4 = calls w @ [CanConnect, Push config_file_path content,
                           NadGet NETWORK_ATTACHMENT_DEFINITION_NAME (model_name w)] @ cre"
      and cre: "cre = [] \<and> fault w GetNAD = None \<and>
         nads w (model_name w, NETWORK_ATTACHMENT_DEFINITION_NAME) \<noteq> None \<or>
       (\<exists>nad. cre = [NadCreate nad (model_name w)] \<and>
          metadata_name nad = NETWORK_ATTACHMENT_DEFINITION_NAME \<and>
          nads w (model_name w, NETWORK_ATTACHMENT_DEFINITION_NAME) = None \<and>
          fault w CreateNAD = None)"
      and n4: "nads w4 (model_name w, NETWORK_ATTACHMENT_DEFINITION_NAME) \<noteq> None"
      and f4: "model_name w4 = model_name w" "app_name w4 = app_name w"
      by blast
    let ?xs = "[CanConnect, Push config_file_path content,
                NadGet NETWORK_ATTACHMENT_DEFINITION_NAME (model_name w)] @ cre @
               [StsGet (app_name w) (model_name w), StsGet (app_name w) (model_name w)]"
    from add(5) f4 have w5: "w5 = w4\<lparr>calls := calls w4 @ [StsGet (app_name w) (model_name w)]\<rparr>"
      by (auto dest!: added_world)
    have np: "StsPatch n obj ns \<notin> set ?xs"
      using cre by auto
    have "\<exists>p. new_calls w w' = ?xs @ [p] \<and> nads w' = nads w4"
    proof (cases r)
      case (Inl e)
      with add(6) have "w' = w5 \<or> w' = w5\<lparr>calls := calls w5 @ [StsGet (app_name w5) (model_name w5)]\<rparr> \<or>
         (\<exists>obj. w' = w5\<lparr>calls := calls w5 @ [StsGet (app_name w5) (model_name w5),
                    StsPatch (app_name w5) obj (model_name w5)]\<rparr>)"
        by (auto dest!: add_Inl)
      with w5 c4 f4 m cre show ?thesis
        by (auto simp: new_calls_def)
    next
      case (Inr u)
      with add(6) w5 c4 f4 show ?thesis
        by (auto dest!: add_Inr simp: new_calls_def)
    qed
    then obtain p where nc: "new_calls w w' = ?xs @ [p]" and n': "nads w' = nads w4"
      by blast
    from nc assms(2) have "?xs @ [p] = pre @ StsPatch n obj ns # post"
      by simp
    from last_call_split [OF this np] have pre: "pre = ?xs" and post: "post = []"
      by simp_all
    from pre cre n4 n' post show ?thesis
      by auto
  qed
qed

theorem patch_after_attachment_witness:
  "new_calls scenario_world (snd (on_config_changed scenario_world)) =
     [CanConnect,
      Push ''/free5gc/config/amfcfg.yaml'' ''ngapIpList: 10.0.0.5'',
      NadGet ''n2network-amf'' ''core'',
      NadCreate \<lparr>metadata_name = ''n2network-amf'',
                 spec = [(''config'', json_dumps (nad_spec ''eth1'' ''10.0.0.1''))]\<rparr> ''core'',
      StsGet ''free5gc-amf'' ''core'',
      StsGet ''free5gc-amf'' ''core''] @
     StsPatch ''free5gc-amf''
        \<lparr>annotations = Some [(''app'', ''amf''),
           (''k8s.v1.cni.cncf.io/networks'',
            json_dumps (multus_annotation ''10.0.0.5/24'' ''10.0.0.1''))]\<rparr> ''core'' # [] \<and>
   nads (snd (on_config_changed scenario_world)) (''core'', ''n2network-amf'') \<noteq> None"
proof -
  have t: "new_calls scenario_world (snd (on_config_changed scenario_world)) =
     [CanConnect,
      Push ''/free5gc/config/amfcfg.yaml'' ''ngapIpList: 10.0.0.5'',
      NadGet ''n2network-amf'' ''core'',
      NadCreate \<lparr>metadata_name = ''n2network-amf'',
                 spec = [(''config'', json_dumps (nad_spec ''eth1'' ''10.0.0.1''))]\<rparr> ''core'',
      StsGet ''free5gc-amf'' ''core'',
      StsGet ''free5gc-amf'' ''core''] @
     StsPatch ''free5gc-amf''
        \<lparr>annotations = Some [(''app'', ''amf''),
           (''k8s.v1.cni.cncf.io/networks'',
            json_dumps (multus_annotation ''10.0.0.5/24'' ''10.0.0.1''))]\<rparr> ''core'' # []"
    by (simp add: charm_defs collab_defs Let_def new_calls_def scenario_world_def
      scenario_config_def example_template_def config_file_path_def BASE_CONFIG_PATH_def
      CONFIG_FILE_NAME_def NETWORK_ATTACHMENT_DEFINITION_NAME_def multus_key_def
      merge_annotations_def)
  have p: "on_config_changed scenario_world =
      (fst (on_config_changed scenario_world), snd (on_config_changed scenario_world))"
    by simp
  have n: "model_name scenario_world = ''core''"
    "NETWORK_ATTACHMENT_DEFINITION_NAME = ''n2network-amf''"
    by (simp_all add: scenario_world_def NETWORK_ATTACHMENT_DEFINITION_NAME_def)
  from patch_after_attachment [OF p t]
  have "nads (snd (on_config_changed scenario_world))
      (model_name scenario_world, NETWORK_ATTACHMENT_DEFINITION_NAME) \<noteq> None"
    by (elim conjE)
  with n have "nads (snd (on_config_changed scenario_world)) (''core'', ''n2network-amf'') \<noteq> None"
    by simp
  with t show ?thesis by (intro conjI)
qed

subsection \<open>Fixed names and paths\<close>

text \<open>
  Claim C9. The configuration path is the directory constant, a slash and the file name
  constant. Every layer that \<^verbatim>\<open>_on_free5gc_amf_pebble_ready\<close> declares has the one service
  \<^verbatim>\<open>free5gc-amf\<close>, whose command is \<^verbatim>\<open>./amf -c\<close> followed by that path and whose
  environment is the one variable \<^verbatim>\<open>GIN_MODE=release\<close>. The file whose existence the handler
  checks and the file that \<^verbatim>\<open>_on_config_changed\<close> pushes are at that path. Every call of
  the three handlers that addresses a network attachment definition (get, create,
  delete) addresses the one named by the constant.
\<close>

theorem fixed_names_and_paths:
  "config_file_path = ''/free5gc/config/amfcfg.yaml'' \<and>
   NETWORK_ATTACHMENT_DEFINITION_NAME = ''n2network-amf'' \<and>
   (\<forall>label l combine.
      AddLayer label l combine \<in> set (new_calls w (snd (on_free5gc_amf_pebble_ready w))) \<longrightarrow>
      (\<exists>svc. services l = [(''free5gc-amf'', svc)] \<and>
         command svc = ''./amf -c '' @ config_file_path \<and>
         environment svc = [(''GIN_MODE'', ''release'')])) \<and>
   (\<forall>path. Exists path \<in> set (new_calls w (snd (on_free5gc_amf_pebble_ready w))) \<longrightarrow>
      path = config_file_path) \<and>
   (\<forall>path content. Push path content \<in> set (new_calls w (snd (on_config_changed w))) \<longrightarrow>
      path = config_file_path) \<and>
   (\<forall>c \<in> set (new_calls w (snd (on_config_changed w))) \<union>
           set (new_calls w (snd (on_remove w))) \<union>
           set (new_calls w (snd (on_free5gc_amf_pebble_ready w))).
      nad_call_name c = None \<or> nad_call_name c = Some NETWORK_ATTACHMENT_DEFINITION_NAME)"
proof -
  have 1: "config_file_path = ''/free5gc/config/amfcfg.yaml''"
    by (simp add: config_file_path_def BASE_CONFIG_PATH_def CONFIG_FILE_NAME_def)
  have 2: "NETWORK_ATTACHMENT_DEFINITION_NAME = ''n2network-amf''"
    by (simp add: NETWORK_ATTACHMENT_DEFINITION_NAME_def)
  have ready: "new_calls w (snd (on_free5gc_amf_pebble_ready w)) = [CanConnect] \<or>
    new_calls w (snd (on_free5gc_amf_pebble_ready w)) = [CanConnect, Exists config_file_path] \<or>
    new_calls w (snd (on_free5gc_amf_pebble_ready w)) =
      [CanConnect, Exists config_file_path, AddLayer ''free5gc-amf'' pebble_layer True, Replan]"
    by (cases "can_connect w"; cases "files w config_file_path")
      (simp_all add: on_free5gc_amf_pebble_ready_def config_file_is_written_def collab_defs
        new_calls_def)
  have layer: "\<exists>svc. services pebble_layer = [(''free5gc-amf'', svc)] \<and>
         command svc = ''./amf -c '' @ config_file_path \<and>
         environment svc = [(''GIN_MODE'', ''release'')]"
    by (simp add: pebble_layer_def environment_variables_def config_file_path_def)
  have 3: "\<exists>svc. services l = [(''free5gc-amf'', svc)] \<and>
         command svc = ''./amf -c '' @ config_file_path \<and>
         environment svc = [(''GIN_MODE'', ''release'')]"
    if "AddLayer label l combine \<in> set (new_calls w (snd (on_free5gc_amf_pebble_ready w)))"
    for label l combine
    using that ready layer by auto
  have 4: "path = config_file_path"
    if "Exists path \<in> set (new_calls w (snd (on_free5gc_amf_pebble_ready w)))" for path
    using that ready by auto
  obtain r w' where p: "on_config_changed w = (r, w')"
    by (cases "on_config_changed w")
  have 5: "path = config_file_path"
    if "Push path content \<in> set (new_calls w (snd (on_config_changed w)))" for path content
    using pass_calls [OF p, of "Push path content"] that p by auto
  have 6: "nad_call_name c = None \<or> nad_call_name c = Some NETWORK_ATTACHMENT_DEFINITION_NAME"
    if "c \<in> set (new_calls w (snd (on_config_changed w)))" for c
    using pass_calls [OF p, of c] that p by auto
  have 7: "nad_call_name c = None \<or> nad_call_name c = Some NETWORK_ATTACHMENT_DEFINITION_NAME"
    if "c \<in> set (new_calls w (snd (on_remove w)))" for c
    using that
    by (auto simp: on_remove_def delete_network_attachement_definition_def client_delete_nad_def
        record_call_def new_calls_def Let_def split: option.splits)
  have 8: "nad_call_name c = None \<or> nad_call_name c = Some NETWORK_ATTACHMENT_DEFINITION_NAME"
    if "c \<in> set (new_calls w (snd (on_free5gc_amf_pebble_ready w)))" for c
    using that ready by auto
  from 6 7 8 have 9: "\<forall>c \<in> set (new_calls w (snd (on_config_changed w))) \<union>
           set (new_calls w (snd (on_remove w))) \<union>
           set (new_calls w (snd (on_free5gc_amf_pebble_ready w))).
      nad_call_name c = None \<or> nad_call_name c = Some NETWORK_ATTACHMENT_DEFINITION_NAME"
    by blast
  from 3 4 5 have 10: "(\<forall>label l combine.
      AddLayer label l combine \<in> set (new_calls w (snd (on_free5gc_amf_pebble_ready w))) \<longrightarrow>
      (\<exists>svc. services l = [(''free5gc-amf'', svc)] \<and>
         command svc = ''./amf -c '' @ config_file_path \<and>
         environment svc = [(''GIN_MODE'', ''release'')])) \<and>
   (\<forall>path. Exists path \<in> set (new_calls w (snd (on_free5gc_amf_pebble_ready w))) \<longrightarrow>
      path = config_file_path) \<and>
   (\<forall>path content. Push path content \<in> set (new_calls w (snd (on_config_changed w))) \<longrightarrow>
      path = config_file_path)"
    by blast
  from 1 2 9 10 show ?thesis
    by (intro conjI) (elim conjE, assumption)+
qed

theorem fixed_names_and_paths_witness:
  "AddLayer ''free5gc-amf'' pebble_layer True \<in>
     set (new_calls (scenario_world\<lparr>files := [config_file_path \<mapsto> ''x'']\<rparr>)
       (snd (on_free5gc_amf_pebble_ready (scenario_world\<lparr>files := [config_file_path \<mapsto> ''x'']\<rparr>)))) \<and>
   (\<exists>svc. services pebble_layer = [(''free5gc-amf'', svc)] \<and>
      command svc = ''./amf -c /free5gc/config/amfcfg.yaml'' \<and>
      environment svc = [(''GIN_MODE'', ''release'')])"
proof -
  let ?w = "scenario_world\<lparr>files := [config_file_path \<mapsto> ''x'']\<rparr>"
  have m: "AddLayer ''free5gc-amf'' pebble_layer True \<in>
     set (new_calls ?w (snd (on_free5gc_amf_pebble_ready ?w)))"
    by (simp add: on_free5gc_amf_pebble_ready_def config_file_is_written_def collab_defs
        new_calls_def scenario_world_def)
  from fixed_names_and_paths [of ?w] have
    p: "config_file_path = ''/free5gc/config/amfcfg.yaml''"
    and l: "\<forall>label l combine.
      AddLayer label l combine \<in> set (new_calls ?w (snd (on_free5gc_amf_pebble_ready ?w))) \<longrightarrow>
      (\<exists>svc. services l = [(''free5gc-amf'', svc)] \<and>
         command svc = ''./amf -c '' @ config_file_path \<and>
         environment svc = [(''GIN_MODE'', ''release'')])"
    by blast+
  from l m have "\<exists>svc. services pebble_layer = [(''free5gc-amf'', svc)] \<and>
         command svc = ''./amf -c '' @ config_file_path \<and>
         environment svc = [(''GIN_MODE'', ''release'')]"
    by blast
  with p have "\<exists>svc. services pebble_layer = [(''free5gc-amf'', svc)] \<and>
      command svc = ''./amf -c /free5gc/config/amfcfg.yaml'' \<and>
      environment svc = [(''GIN_MODE'', ''release'')]"
    by simp
  with m show ?thesis by blast
qed

subsection \<open>Pod annotations that are \<^verbatim>\<open>None\<close>\<close>

text \<open>
  Claim C10. When the statefulset is returned and its pod annotations are \<^verbatim>\<open>None\<close>, the
  annotation check raises \<^verbatim>\<open>TypeError\<close> after its get instead of returning false. A pass
  on a reachable container then ends in an error, never issues the merge patch, and
  leaves the statefulsets as they are; the error is that \<^verbatim>\<open>TypeError\<close> as soon as the
  pass gets as far as the check, that is, the file is written and the attachment is
  found or created. The check returns false exactly when the statefulset is returned,
  its annotations are a mapping, and the mapping lacks the Multus key.
\<close>

theorem annotations_none_raises:
  assumes "fault w GetSTS = None"
    and "statefulsets w (model_name w, app_name w) = Some s" and "annotations s = None"
  shows "annotation_added_to_statefulset w =
      (Inl TypeError, w\<lparr>calls := calls w @ [StsGet (app_name w) (model_name w)]\<rparr>) \<and>
    (can_connect w \<longrightarrow>
       (\<exists>e. fst (on_config_changed w) = Inl e) \<and>
       (\<forall>n obj ns. StsPatch n obj ns \<notin> set (new_calls w (snd (on_config_changed w)))) \<and>
       statefulsets (snd (on_config_changed w)) = statefulsets w) \<and>
    (can_connect w \<and> map_of (config w) ''ngap-ip'' \<noteq> None \<and>
     (fault w GetNAD = None \<and>
        nads w (model_name w, NETWORK_ATTACHMENT_DEFINITION_NAME) \<noteq> None \<or>
      nads w (model_name w, NETWORK_ATTACHMENT_DEFINITION_NAME) = None \<and>
        fault w CreateNAD = None \<and> map_of (config w) ''interface'' \<noteq> None \<and>
        map_of (config w) ''ngap-gateway'' \<noteq> None) \<longrightarrow>
       fst (on_config_changed w) = Inl TypeError) \<and>
    (\<forall>v. fst (annotation_added_to_statefulset v) = Inr False \<longleftrightarrow>
       fault v GetSTS = None \<and>
       (\<exists>s a. statefulsets v (model_name v, app_name v) = Some s \<and> annotations s = Some a \<and>
          map_of a multus_key = None))"
proof -
  have 1: "annotation_added_to_statefulset w =
      (Inl TypeError, w\<lparr>calls := calls w @ [StsGet (app_name w) (model_name w)]\<rparr>)"
    using assms
    by (simp add: annotation_added_to_statefulset_def client_get_sts_def record_call_def)
  have 2: "(\<exists>e. fst (on_config_changed w) = Inl e) \<and>
       (\<forall>n obj ns. StsPatch n obj ns \<notin> set (new_calls w (snd (on_config_changed w)))) \<and>
       statefulsets (snd (on_config_changed w)) = statefulsets w" if cc: "can_connect w"
  proof -
    obtain r w' where p: "on_config_changed w = (r, w')"
      by (cases "on_config_changed w")
    have "(\<exists>e. r = Inl e) \<and> (\<forall>n obj ns. StsPatch n obj ns \<notin> set (new_calls w w')) \<and>
       statefulsets w' = statefulsets w"
      using p
    proof (cases rule: on_config_changed_cases)
      case not_ready
      with cc show ?thesis by simp
    next
      case (write_failed e)
      then show ?thesis
        by (auto dest!: write_config_file_Inl simp: record_call_def new_calls_def)
    next
      case (create_failed e w2 w3)
      then show ?thesis
        by (auto dest!: write_config_file_Inr create_Inl
            simp: created_eq record_call_def new_calls_def)
    next
      case (check_failed e w2 w3 w4 created)
      then show ?thesis
        by (auto dest!: write_config_file_Inr create_Inr added_world
            simp: created_eq record_call_def new_calls_def split: if_splits)
    next
      case (present w2 w3 w4 created)
      from present(3,4,5) have "statefulsets w4 = statefulsets w" "fault w4 = fault w"
        "model_name w4 = model_name w" "app_name w4 = app_name w"
        by (auto dest!: write_config_file_Inr create_Inr
            simp: created_eq record_call_def split: if_splits)
      with present(6) assms show ?thesis
        by (auto dest!: added_Inr)
    next
      case (add w2 w3 w4 w5 created)
      from add(2,3,4) have "statefulsets w4 = statefulsets w" "fault w4 = fault w"
        "model_name w4 = model_name w" "app_name w4 = app_name w"
        by (auto dest!: write_config_file_Inr create_Inr
            simp: created_eq record_call_def split: if_splits)
      with add(5) assms show ?thesis
        by (auto dest!: added_Inr)
    qed
    with p show ?thesis by simp
  qed
  have 3: "fst (on_config_changed w) = Inl TypeError"
    if "can_connect w" "map_of (config w) ''ngap-ip'' \<noteq> None"
      "fault w GetNAD = None \<and>
        nads w (model_name w, NETWORK_ATTACHMENT_DEFINITION_NAME) \<noteq> None \<or>
      nads w (model_name w, NETWORK_ATTACHMENT_DEFINITION_NAME) = None \<and>
        fault w CreateNAD = None \<and> map_of (config w) ''interface'' \<noteq> None \<and>
        map_of (config w) ''ngap-gateway'' \<noteq> None"
    using that assms
    by (auto simp: on_config_changed_def write_config_file_def config_defs created_eq
        create_network_attachement_definition_def client_create_nad_def
        annotation_added_to_statefulset_def container_can_connect_def container_push_def
        client_get_sts_def record_call_def Let_def)
  have 4: "fst (annotation_added_to_statefulset v) = Inr False \<longleftrightarrow>
       fault v GetSTS = None \<and>
       (\<exists>s a. statefulsets v (model_name v, app_name v) = Some s \<and> annotations s = Some a \<and>
          map_of a multus_key = None)" for v
    by (auto simp: annotation_added_to_statefulset_def client_get_sts_def record_call_def
        Let_def split: option.splits)
  from 1 2 3 4 show ?thesis by blast
qed

theorem annotations_none_raises_witness:
  "fault (scenario_world\<lparr>statefulsets := [(''core'', ''free5gc-amf'') \<mapsto>
       \<lparr>annotations = None\<rparr>]\<rparr>) GetSTS = None \<and>
   fst (annotation_added_to_statefulset (scenario_world\<lparr>statefulsets :=
       [(''core'', ''free5gc-amf'') \<mapsto> \<lparr>annotations = None\<rparr>]\<rparr>)) = Inl TypeError \<and>
   fst (on_config_changed (scenario_world\<lparr>statefulsets :=
       [(''core'', ''free5gc-amf'') \<mapsto> \<lparr>annotations = None\<rparr>]\<rparr>)) = Inl TypeError \<and>
   fst (annotation_added_to_statefulset scenario_world) = Inr False"
  using annotations_none_raises [of "scenario_world\<lparr>statefulsets :=
       [(''core'', ''free5gc-amf'') \<mapsto> \<lparr>annotations = None\<rparr>]\<rparr>" "\<lparr>annotations = None\<rparr>"]
  by (simp add: scenario_world_def scenario_config_def multus_key_def
      NETWORK_ATTACHMENT_DEFINITION_NAME_def)

end
